theory Spec2Isabelle
  imports Complex_Main
begin

section \<open>Data model of \<open>generate_letter_library.py\<close>\<close>

text \<open>
  The script rasterises a letter, traces its outline, extrudes the outline into a
  triangle mesh and exports it. The arrays are NumPy arrays of \<open>float64\<close>; the
  embedding keeps the array structure (lists of rows) and takes the scalar floating-point
  operations of NumPy as a parameter \<open>ops\<close>, so that a theorem stated for every
  \<open>ops\<close> holds for whatever rounding those operations perform. The other libraries
  (PIL, scikit-image, trimesh, the file system) are a second parameter \<open>lib\<close>; each
  call may raise.
\<close>

type_synonym 'f point = "'f \<times> 'f"
  \<comment> \<open>one row of an \<open>n \<times> 2\<close> array: (column 0, column 1); a contour point is (row, column)\<close>

type_synonym 'f vertex = "'f \<times> 'f \<times> 'f"
  \<comment> \<open>one row of an \<open>n \<times> 3\<close> array: (x, y, z)\<close>

type_synonym face = "int list"
  \<comment> \<open>a Python list of three vertex indices\<close>

type_synonym mask = "bool list list"

text \<open>
  Python exceptions. The handlers of the script are \<open>except Exception\<close>; an exception
  that derives from \<open>BaseException\<close> only (\<open>KeyboardInterrupt\<close>, \<open>SystemExit\<close>) is
  not an instance of \<open>Exception\<close>.
\<close>

datatype py_exn = Exc string | BaseExc string

record 'f float_ops =
  f_lit :: "rat \<Rightarrow> 'f"              \<comment> \<open>a literal such as \<open>40.0\<close> or \<open>3.5\<close>\<close>
  f_mean :: "'f list \<Rightarrow> 'f"         \<comment> \<open>\<open>ndarray.mean\<close> of one column\<close>
  f_sub :: "'f \<Rightarrow> 'f \<Rightarrow> 'f"
  f_abs :: "'f \<Rightarrow> 'f"
  f_max :: "'f list \<Rightarrow> 'f"          \<comment> \<open>\<open>np.max\<close> of a non-empty array\<close>
  f_less :: "'f \<Rightarrow> 'f \<Rightarrow> bool"
  f_div :: "'f \<Rightarrow> 'f \<Rightarrow> 'f"
  f_mul :: "'f \<Rightarrow> 'f \<Rightarrow> 'f"
  f_neg :: "'f \<Rightarrow> 'f"

text \<open>A PIL font object: a TrueType font loaded from a path at a size, or the built-in one.\<close>

datatype font = TrueType string nat | DefaultFont

record ('f, 'm) library =
  new_canvas :: "py_exn option"
    \<comment> \<open>\<open>Image.new('L', (300, 300), 0)\<close> and \<open>ImageDraw.Draw(image)\<close>\<close>
  truetype :: "string \<Rightarrow> nat \<Rightarrow> py_exn option"
    \<comment> \<open>\<open>ImageFont.truetype(path, size)\<close>: \<open>None\<close> when the font was loaded\<close>
  load_default :: "py_exn option"
    \<comment> \<open>\<open>ImageFont.load_default()\<close>\<close>
  textbbox :: "string \<Rightarrow> font \<Rightarrow> py_exn + int \<times> int \<times> int \<times> int"
    \<comment> \<open>\<open>draw.textbbox((0, 0), letter, font=font)\<close>\<close>
  draw_mask :: "int \<times> int \<Rightarrow> string \<Rightarrow> font \<Rightarrow> py_exn + mask"
    \<comment> \<open>\<open>draw.text((x, y), letter, fill=255, font=font)\<close>, \<open>np.array(image) > 128\<close>\<close>
  find_contours :: "mask \<Rightarrow> py_exn + 'f point list list"
    \<comment> \<open>\<open>skimage.measure.find_contours(mask, 0.5)\<close>\<close>
  Trimesh :: "'f vertex list \<Rightarrow> face list \<Rightarrow> py_exn + 'm"
    \<comment> \<open>\<open>trimesh.Trimesh(vertices=..., faces=...)\<close>\<close>
  fix_normals :: "'m \<Rightarrow> py_exn + 'm"
  fill_holes :: "'m \<Rightarrow> py_exn + 'm"
  export :: "'m \<Rightarrow> string \<Rightarrow> py_exn option"
    \<comment> \<open>\<open>mesh.export(path)\<close>: \<open>None\<close> when the file was written\<close>
  stat_size :: "string \<Rightarrow> py_exn + nat"
    \<comment> \<open>\<open>path.stat().st_size\<close>\<close>
  vertex_count :: "'m \<Rightarrow> nat"
    \<comment> \<open>\<open>len(mesh.vertices)\<close>\<close>

text \<open>
  A \<open>pathlib\<close> path in the POSIX flavour: the root (\<open>''\<close>, \<open>/\<close> or \<open>//\<close>) and the
  components. \<open>FilePath(s)\<close> splits \<open>s\<close> at the slashes and drops empty components and
  \<open>.\<close>; \<open>str\<close> joins the components with \<open>/\<close> after the root and writes \<open>.\<close> for
  the empty path; \<open>p / s\<close> appends the components of \<open>s\<close>, or is \<open>FilePath(s)\<close> when
  \<open>s\<close> is absolute.
\<close>

record pure_path =
  p_root :: string
  p_parts :: "string list"

fun split_on :: "char \<Rightarrow> string \<Rightarrow> string list" where
  "split_on c [] = [[]]"
| "split_on c (x # xs) =
     (if x = c then [] # split_on c xs
      else (case split_on c xs of [] \<Rightarrow> [[x]] | y # ys \<Rightarrow> (x # y) # ys))"

fun join_slash :: "string list \<Rightarrow> string" where
  "join_slash [] = []"
| "join_slash [x] = x"
| "join_slash (x # y # ys) = x @ ''/'' @ join_slash (y # ys)"

definition FilePath :: "string \<Rightarrow> pure_path" where
  "FilePath s =
     \<lparr>p_root = (if take 2 s = ''//'' \<and> take 3 s \<noteq> ''///'' then ''//''
                else if take 1 s = ''/'' then ''/'' else []),
      p_parts = filter (\<lambda>c. c \<noteq> [] \<and> c \<noteq> ''.'') (split_on CHR ''/'' s)\<rparr>"

definition path_str :: "pure_path \<Rightarrow> string" where
  "path_str p =
     (if p_root p = [] \<and> p_parts p = [] then ''.'' else p_root p @ join_slash (p_parts p))"

definition joinpath :: "pure_path \<Rightarrow> string \<Rightarrow> pure_path" where
  "joinpath p s =
     (let q = FilePath s
      in if p_root q \<noteq> [] then q else p\<lparr>p_parts := p_parts p @ p_parts q\<rparr>)"

record generator =
  output_dir :: pure_path
  font_size :: nat

section \<open>Contour extraction\<close>

text \<open>\<open>max(contours, key=len)\<close>: the first contour of greatest length.\<close>

fun longest :: "'a list \<Rightarrow> 'a list list \<Rightarrow> 'a list" where
  "longest best [] = best"
| "longest best (c # cs) = longest (if length best < length c then c else best) cs"

text \<open>\<open>xs[::step]\<close> for \<open>step \<ge> 1\<close>: the elements at indices 0, step, 2 step, ...\<close>

fun stride :: "nat \<Rightarrow> 'a list \<Rightarrow> 'a list" where
  "stride step [] = []"
| "stride step (x # xs) = x # stride step (drop (step - 1) xs)"

definition simplify :: "'a list \<Rightarrow> 'a list" where
  "simplify main_contour =
     (let step = max 1 (length main_contour div 100) in stride step main_contour)"

definition extract_contour ::
  "generator \<Rightarrow> ('f, 'm) library \<Rightarrow> mask \<Rightarrow> py_exn + 'f point list" where
  "extract_contour self lib msk =
     (case find_contours lib msk of
        Inl e \<Rightarrow> Inl e
      | Inr contours \<Rightarrow>
          (case contours of
             [] \<Rightarrow> Inr []
           | c # cs \<Rightarrow> Inr (simplify (longest c cs))))"

section \<open>Extrusion\<close>

definition center_coords :: "'f float_ops \<Rightarrow> 'f point list \<Rightarrow> 'f point list" where
  "center_coords ops coords =
     (let c0 = f_mean ops (map fst coords); c1 = f_mean ops (map snd coords)
      in map (\<lambda>(a, b). (f_sub ops a c0, f_sub ops b c1)) coords)"

definition max_extent :: "'f float_ops \<Rightarrow> 'f point list \<Rightarrow> 'f" where
  "max_extent ops coords =
     f_max ops (map (f_abs ops) (concat (map (\<lambda>(a, b). [a, b]) coords)))"

definition scale_coords :: "'f float_ops \<Rightarrow> 'f point list \<Rightarrow> 'f point list" where
  "scale_coords ops coords =
     (let m = max_extent ops coords in
      if f_less ops (f_lit ops 0) m
      then (let s = f_div ops (f_lit ops 40) m
            in map (\<lambda>(a, b). (f_mul ops a s, f_mul ops b s)) coords)
      else coords)"

text \<open>\<open>coords[:, 1] = -coords[:, 1]\<close>: column 1 is negated, column 0 is kept.\<close>

definition flip_y :: "'f float_ops \<Rightarrow> 'f point list \<Rightarrow> 'f point list" where
  "flip_y ops coords = map (\<lambda>(a, b). (a, f_neg ops b)) coords"

definition normalise :: "'f float_ops \<Rightarrow> 'f point list \<Rightarrow> 'f point list" where
  "normalise ops contour_points =
     flip_y ops (scale_coords ops (center_coords ops contour_points))"

definition bottom_ring :: "'f float_ops \<Rightarrow> 'f point list \<Rightarrow> 'f vertex list" where
  "bottom_ring ops coords = map (\<lambda>(a, b). (a, b, f_lit ops 0)) coords"

definition top_ring :: "'f point list \<Rightarrow> 'f \<Rightarrow> 'f vertex list" where
  "top_ring coords height = map (\<lambda>(a, b). (a, b, height)) coords"

text \<open>\<open>range(a, b)\<close> on Python integers.\<close>

definition py_range :: "int \<Rightarrow> int \<Rightarrow> int list" where
  "py_range a b = [a..b - 1]"

definition side_faces :: "int \<Rightarrow> face list" where
  "side_faces n_points =
     concat (map (\<lambda>i. [[i, i + 1, i + 1 + n_points], [i, i + 1 + n_points, i + n_points]])
                 (py_range 0 (n_points - 1)))"

definition close_faces :: "int \<Rightarrow> face list" where
  "close_faces n_points =
     [[n_points - 1, 0, n_points], [n_points - 1, n_points, 2 * n_points - 1]]"

definition bottom_cap :: "int \<Rightarrow> face list" where
  "bottom_cap n_points = map (\<lambda>i. [0, i + 1, i]) (py_range 1 (n_points - 1))"

definition top_cap :: "int \<Rightarrow> face list" where
  "top_cap n_points =
     map (\<lambda>i. [n_points, n_points + i, n_points + i + 1]) (py_range 1 (n_points - 1))"

definition build_faces :: "int \<Rightarrow> face list" where
  "build_faces n_points =
     side_faces n_points @ close_faces n_points @ bottom_cap n_points @ top_cap n_points"

text \<open>
  The two arrays that \<open>_extrude_contour\<close> hands to the mesh constructor: \<open>vertices\<close>
  (bottom ring, then top ring) and \<open>faces\<close>.
\<close>

definition extrude_arrays ::
  "generator \<Rightarrow> 'f float_ops \<Rightarrow> 'f point list \<Rightarrow> 'f \<Rightarrow> 'f vertex list \<times> face list" where
  "extrude_arrays self ops contour_points height =
     (let coords = normalise ops contour_points;
          n_points = int (length coords);
          bottom = bottom_ring ops coords;
          top = top_ring coords height
      in (bottom @ top, build_faces n_points))"

text \<open>
  \<open>_extrude_contour\<close>. On an empty array \<open>np.max\<close> raises \<open>ValueError\<close>; otherwise the
  arrays go through the mesh constructor and the two repair calls of trimesh.
\<close>

definition extrude_contour ::
  "generator \<Rightarrow> 'f float_ops \<Rightarrow> ('f, 'm) library \<Rightarrow> 'f point list \<Rightarrow> 'f \<Rightarrow> py_exn + 'm" where
  "extrude_contour self ops lib contour_points height =
     (if contour_points = [] then Inl (Exc ''ValueError'')
      else
        (case extrude_arrays self ops contour_points height of
           (vertices, faces) \<Rightarrow>
             (case Trimesh lib vertices faces of
                Inl e \<Rightarrow> Inl e
              | Inr mesh_obj \<Rightarrow>
                  (case fix_normals lib mesh_obj of
                     Inl e \<Rightarrow> Inl e
                   | Inr fixed \<Rightarrow> fill_holes lib fixed))))"

section \<open>Generating the variants of a letter\<close>

record variant_spec =
  thickness :: rat
  description :: string

text \<open>The class attribute \<open>VARIANTS\<close>: a dict, iterated in insertion order.\<close>

definition VARIANTS :: "(string \<times> variant_spec) list" where
  "VARIANTS =
     [(''pin'', \<lparr>thickness = 7 / 2, description = ''Pin with mounting post''\<rparr>),
      (''magnet'', \<lparr>thickness = 9 / 2, description = ''Magnet with recess''\<rparr>),
      (''keyring'', \<lparr>thickness = 11 / 2, description = ''Keyring with reinforced loop''\<rparr>),
      (''cake_mould'', \<lparr>thickness = 10, description = ''Cake mould (inverted relief)''\<rparr>)]"

definition CENTRIA_LETTERS :: "string list" where
  "CENTRIA_LETTERS = [''C'', ''E'', ''N'', ''T'', ''R'', ''I'', ''A'']"

definition FULL_ALPHABET :: "string list" where
  "FULL_ALPHABET = map (\<lambda>c. [c]) ''ABCDEFGHIJKLMNOPQRSTUVWXYZ''"

text \<open>What the script prints, one event per message.\<close>

datatype event =
    LogProcessing string
  | LogCreating string rat
  | LogWarning string
  | LogFailed
  | LogOk nat nat
  | LogError py_exn
  | LogTraceback py_exn

text \<open>
  The state outside the interpreter: the directories made, the files that a completed
  export has written (in order), and the console.
\<close>

record world =
  dirs :: "string set"
  files :: "string list"
  console :: "event list"

text \<open>
  \<open>mkdir(exist_ok=True)\<close>, and \<open>mkdir(parents=True, exist_ok=True)\<close>, which also makes
  the missing parents. The file system is taken to be writable, so that both succeed.
\<close>

definition mkdir :: "pure_path \<Rightarrow> world \<Rightarrow> world" where
  "mkdir d w = w\<lparr>dirs := insert (path_str d) (dirs w)\<rparr>"

definition ancestors :: "pure_path \<Rightarrow> pure_path list" where
  "ancestors d = map (\<lambda>k. d\<lparr>p_parts := take k (p_parts d)\<rparr>) [1..<length (p_parts d)]"

definition mkdir_parents :: "pure_path \<Rightarrow> world \<Rightarrow> world" where
  "mkdir_parents d w = mkdir d (fold mkdir (ancestors d) w)"

text \<open>\<open>__init__\<close>, and the call \<open>LetterSTLGenerator()\<close> with the default arguments.\<close>

definition init :: "string \<Rightarrow> nat \<Rightarrow> world \<Rightarrow> generator \<times> world" where
  "init out_dir fsize w =
     (\<lparr>output_dir = FilePath out_dir, font_size = fsize\<rparr>,
      fold (\<lambda>variant. mkdir (joinpath (FilePath out_dir) variant)) (map fst VARIANTS)
        (mkdir_parents (FilePath out_dir) w))"

definition init_default :: "world \<Rightarrow> generator \<times> world" where
  "init_default w = init ''Centria_3D_Models/Letters_Library'' 200 w"

text \<open>
  Lines 58-102 of \<open>create_letter_mesh\<close>. The font loop tries the candidates in order
  under a bare \<open>except\<close>, which swallows every exception and goes on with the next
  path; when none loads, the built-in font is taken, once more if the first attempt
  raised an \<open>Exception\<close>.
\<close>

definition font_options :: "string list" where
  "font_options =
     [''arial.ttf'', ''Arial Bold.ttf'', ''arialbd.ttf'',
      ''C:/Windows/Fonts/arialbd.ttf'', ''C:/Windows/Fonts/arial.ttf'']"

fun load_font :: "('f, 'm) library \<Rightarrow> nat \<Rightarrow> string list \<Rightarrow> font option" where
  "load_font lib fsize [] = None"
| "load_font lib fsize (font_path # rest) =
     (case truetype lib font_path fsize of
        None \<Rightarrow> Some (TrueType font_path fsize)
      | Some e \<Rightarrow> load_font lib fsize rest)"

definition choose_font :: "('f, 'm) library \<Rightarrow> nat \<Rightarrow> py_exn + font" where
  "choose_font lib fsize =
     (case load_font lib fsize font_options of
        Some f \<Rightarrow> Inr f
      | None \<Rightarrow>
          (case load_default lib of
             None \<Rightarrow> Inr DefaultFont
           | Some (BaseExc msg) \<Rightarrow> Inl (BaseExc msg)
           | Some (Exc msg) \<Rightarrow>
               (case load_default lib of None \<Rightarrow> Inr DefaultFont | Some e \<Rightarrow> Inl e)))"

definition rasterise :: "generator \<Rightarrow> ('f, 'm) library \<Rightarrow> string \<Rightarrow> py_exn + mask" where
  "rasterise self lib letter =
     (let img_size = 300 in
      case new_canvas lib of
        Some e \<Rightarrow> Inl e
      | None \<Rightarrow>
          (case choose_font lib (font_size self) of
             Inl e \<Rightarrow> Inl e
           | Inr fnt \<Rightarrow>
               (case textbbox lib letter fnt of
                  Inl e \<Rightarrow> Inl e
                | Inr (b0, b1, b2, b3) \<Rightarrow>
                    (let text_width = b2 - b0;
                         text_height = b3 - b1;
                         x = (img_size - text_width) div 2 - b0;
                         y = (img_size - text_height) div 2 - b1
                     in draw_mask lib (x, y) letter fnt))))"

definition create_letter_mesh ::
  "generator \<Rightarrow> 'f float_ops \<Rightarrow> ('f, 'm) library \<Rightarrow> string \<Rightarrow> 'f \<Rightarrow> world
     \<Rightarrow> world \<times> (py_exn + 'm option)" where
  "create_letter_mesh self ops lib letter thick w =
     (case rasterise self lib letter of
        Inl e \<Rightarrow> (w, Inl e)
      | Inr msk \<Rightarrow>
          (case extract_contour self lib msk of
             Inl e \<Rightarrow> (w, Inl e)
           | Inr contour_points \<Rightarrow>
               if length contour_points < 3
               then (w\<lparr>console := console w @ [LogWarning letter]\<rparr>, Inr None)
               else
                 (case extrude_contour self ops lib contour_points thick of
                    Inl e \<Rightarrow> (w, Inl e)
                  | Inr mesh_obj \<Rightarrow> (w, Inr (Some mesh_obj)))))"

definition output_file :: "generator \<Rightarrow> string \<Rightarrow> string \<Rightarrow> pure_path" where
  "output_file self letter variant_name =
     joinpath (joinpath (output_dir self) variant_name)
       (''Letter_'' @ letter @ ''_'' @ variant_name @ ''.stl'')"

text \<open>
  The body of the \<open>try\<close> statement for one variant: the state it leaves, and the
  exception it raised, if any.
\<close>

definition try_body ::
  "generator \<Rightarrow> 'f float_ops \<Rightarrow> ('f, 'm) library \<Rightarrow> string \<Rightarrow> string \<times> variant_spec \<Rightarrow> world
     \<Rightarrow> world \<times> py_exn option" where
  "try_body self ops lib letter variant w =
     (case variant of (variant_name, specs) \<Rightarrow>
        (case create_letter_mesh self ops lib letter (f_lit ops (thickness specs)) w of
           (w1, Inl e) \<Rightarrow> (w1, Some e)
         | (w1, Inr None) \<Rightarrow> (w1\<lparr>console := console w1 @ [LogFailed]\<rparr>, None)
         | (w1, Inr (Some letter_mesh)) \<Rightarrow>
             (case export lib letter_mesh (path_str (output_file self letter variant_name)) of
                Some e \<Rightarrow> (w1, Some e)
              | None \<Rightarrow>
                  (let w2 = w1\<lparr>files := files w1 @
                              [path_str (output_file self letter variant_name)]\<rparr> in
                   case stat_size lib (path_str (output_file self letter variant_name)) of
                     Inl e \<Rightarrow> (w2, Some e)
                   | Inr file_size \<Rightarrow>
                       (w2\<lparr>console := console w2 @
                              [LogOk file_size (vertex_count lib letter_mesh)]\<rparr>, None)))))"

text \<open>\<open>except Exception as e\<close>: print the error and the traceback; anything else propagates.\<close>

definition handler :: "py_exn \<Rightarrow> world \<Rightarrow> world \<times> py_exn option" where
  "handler e w =
     (case e of
        Exc msg \<Rightarrow> (w\<lparr>console := console w @ [LogError e, LogTraceback e]\<rparr>, None)
      | BaseExc msg \<Rightarrow> (w, Some e))"

definition generate_variant ::
  "generator \<Rightarrow> 'f float_ops \<Rightarrow> ('f, 'm) library \<Rightarrow> string \<Rightarrow> string \<times> variant_spec \<Rightarrow> world
     \<Rightarrow> world \<times> py_exn option" where
  "generate_variant self ops lib letter variant w =
     (case try_body self ops lib letter variant
             (w\<lparr>console := console w @ [LogCreating (fst variant) (thickness (snd variant))]\<rparr>) of
        (w1, None) \<Rightarrow> (w1, None)
      | (w1, Some e) \<Rightarrow> handler e w1)"

text \<open>The \<open>for\<close> loop over the variants: an exception that leaves the handler ends it.\<close>

fun generate_loop ::
  "generator \<Rightarrow> 'f float_ops \<Rightarrow> ('f, 'm) library \<Rightarrow> string \<Rightarrow> (string \<times> variant_spec) list
     \<Rightarrow> world \<Rightarrow> world \<times> py_exn option" where
  "generate_loop self ops lib letter [] w = (w, None)"
| "generate_loop self ops lib letter (variant # rest) w =
     (case generate_variant self ops lib letter variant w of
        (w1, None) \<Rightarrow> generate_loop self ops lib letter rest w1
      | (w1, Some e) \<Rightarrow> (w1, Some e))"

definition generate_letter_variants ::
  "generator \<Rightarrow> 'f float_ops \<Rightarrow> ('f, 'm) library \<Rightarrow> string \<Rightarrow> world \<Rightarrow> world \<times> py_exn option" where
  "generate_letter_variants self ops lib letter w =
     generate_loop self ops lib letter VARIANTS
       (w\<lparr>console := console w @ [LogProcessing letter]\<rparr>)"

section \<open>Derived notions used in the statements\<close>

text \<open>
  Where one contour point ends up in the plane: \<open>_extrude_contour\<close> centres, scales and
  flips the whole array at once; \<open>place\<close> is the same computation read for a single
  point of the polyline (lemma \<open>normalise_pointwise\<close> below).
\<close>

definition place :: "'f float_ops \<Rightarrow> 'f point list \<Rightarrow> 'f point \<Rightarrow> 'f point" where
  "place ops contour_points p =
     (let c0 = f_mean ops (map fst contour_points);
          c1 = f_mean ops (map snd contour_points);
          m = max_extent ops (center_coords ops contour_points);
          a = f_sub ops (fst p) c0;
          b = f_sub ops (snd p) c1
      in if f_less ops (f_lit ops 0) m
         then (f_mul ops a (f_div ops (f_lit ops 40) m),
               f_neg ops (f_mul ops b (f_div ops (f_lit ops 40) m)))
         else (a, f_neg ops b))"


text \<open>The variants whose \<open>Creating ...\<close> line has been printed, in order.\<close>

fun started :: "event list \<Rightarrow> string list" where
  "started [] = []"
| "started (LogCreating v t # es) = v # started es"
| "started (e # es) = started es"

section \<open>Concrete parameters for evaluation\<close>

text \<open>
  Exact rational arithmetic, for evaluating the definitions on inputs where every
  floating-point operation involved is exact.
\<close>

definition exact_ops :: "rat float_ops" where
  "exact_ops =
     \<lparr>f_lit = (\<lambda>q. q),
      f_mean = (\<lambda>xs. sum_list xs / of_nat (length xs)),
      f_sub = (\<lambda>a b. a - b),
      f_abs = abs,
      f_max = (\<lambda>xs. fold max xs (hd xs)),
      f_less = (\<lambda>a b. a < b),
      f_div = (\<lambda>a b. a / b),
      f_mul = (\<lambda>a b. a * b),
      f_neg = uminus\<rparr>"

text \<open>
  What \<open>trimesh.Trimesh(vertices=..., faces=...)\<close> does with its default
  \<open>process=True\<close>: rows at the same position become one vertex (the first of them
  is kept) and the faces are re-indexed.
\<close>

definition unique_rows :: "'a list \<Rightarrow> 'a list" where
  "unique_rows vs = rev (remdups (rev vs))"

fun position :: "'a \<Rightarrow> 'a list \<Rightarrow> int" where
  "position x [] = 0"
| "position x (y # ys) = (if x = y then 0 else 1 + position x ys)"

definition merge_vertices :: "'a list \<Rightarrow> face list \<Rightarrow> 'a list \<times> face list" where
  "merge_vertices vs fs =
     (unique_rows vs, map (map (\<lambda>i. position (vs ! nat i) (unique_rows vs))) fs)"

text \<open>
  A stand-in for the libraries: PIL draws with the first font, the contour tracer returns
  the given contours, the mesh is the pair of arrays after the merging of coincident
  vertices, the repair calls leave it alone, and \<open>on_export\<close> decides what exporting
  to a path does.
\<close>

definition test_lib ::
  "rat point list list \<Rightarrow> (string \<Rightarrow> py_exn option)
     \<Rightarrow> (rat, rat vertex list \<times> face list) library" where
  "test_lib contours on_export =
     \<lparr>new_canvas = None,
      truetype = (\<lambda>font_path fsize. None),
      load_default = None,
      textbbox = (\<lambda>letter fnt. Inr (0, 0, 100, 140)),
      draw_mask = (\<lambda>xy letter fnt. Inr []),
      find_contours = (\<lambda>msk. Inr contours),
      Trimesh = (\<lambda>vs fs. Inr (merge_vertices vs fs)),
      fix_normals = Inr,
      fill_holes = Inr,
      export = (\<lambda>m p. on_export p),
      stat_size = (\<lambda>p. Inr 1),
      vertex_count = (\<lambda>m. length (fst m))\<rparr>"

definition world0 :: world where
  "world0 = \<lparr>dirs = {}, files = [], console = []\<rparr>"

definition gen0 :: generator where
  "gen0 = fst (init_default world0)"

definition square :: "rat point list" where
  "square = [(0, 0), (2, 0), (2, 4), (0, 4)]"

text \<open>
  A closed contour, as the tracer returns them: the first point is repeated at the end.
  Every floating-point operation of the extrusion on it is exact.
\<close>

definition closed_triangle :: "rat point list" where
  "closed_triangle = [(8, 4), (16, 0), (0, 0), (8, 4)]"

text \<open>
  A contour of 250 points (stride 2), one of 199 points (stride 1) and one of two points
  (too short to extrude).
\<close>

definition contour199 :: "rat point list" where
  "contour199 = map (\<lambda>i. (of_nat i, 0)) [0..<199]"

definition long_contour :: "rat point list" where
  "long_contour = map (\<lambda>i. (of_nat i, 0)) [0..<250]"

definition short_contour :: "rat point list" where
  "short_contour = [(0, 0), (1, 1)]"

text \<open>An export that raises \<open>e\<close> for one path and succeeds for every other.\<close>

definition export_fails_for :: "string \<Rightarrow> py_exn \<Rightarrow> string \<Rightarrow> py_exn option" where
  "export_fails_for path e p = (if p = path then Some e else None)"

text \<open>A font loader on which loading the first candidate font is interrupted.\<close>

definition interrupted_font :: "string \<Rightarrow> nat \<Rightarrow> py_exn option" where
  "interrupted_font font_path fsize =
     (if font_path = ''arial.ttf'' then Some (BaseExc ''KeyboardInterrupt'') else None)"

section \<open>The float64 arithmetic of NumPy\<close>









section \<open>Arrays built by the extrusion\<close>

lemma length_normalise: "length (normalise ops pts) = length pts"
  by (simp add: normalise_def flip_y_def scale_coords_def center_coords_def Let_def)

lemma normalise_pointwise: "normalise ops pts = map (place ops pts) pts"
proof -
  have c: "center_coords ops pts =
      map (\<lambda>p. (f_sub ops (fst p) (f_mean ops (map fst pts)),
                 f_sub ops (snd p) (f_mean ops (map snd pts)))) pts"
    by (simp add: center_coords_def Let_def case_prod_beta)
  show ?thesis
    unfolding normalise_def flip_y_def scale_coords_def Let_def
    by (simp add: c place_def Let_def case_prod_beta)
qed

lemma length_py_range: "length (py_range a b) = nat (b - a)"
  by (simp add: py_range_def)

lemma set_py_range: "set (py_range a b) = {a..<b}"
  by (auto simp: py_range_def)

lemma length_side_faces: "length (side_faces n) = 2 * nat (n - 1)"
  by (simp add: side_faces_def length_concat comp_def sum_list_triv length_py_range)

lemma length_build_faces:
  assumes "3 \<le> n"
  shows "length (build_faces n) = nat (4 * n - 4)"
  using assms
  by (simp add: build_faces_def length_side_faces close_faces_def bottom_cap_def top_cap_def length_py_range)

lemma side_wall_pattern:
  assumes "1 \<le> n"
  shows "side_faces n @ close_faces n =
     concat (map (\<lambda>i. [[i, (i + 1) mod n, (i + 1) mod n + n], [i, (i + 1) mod n + n, i + n]])
                 (py_range 0 n))"
proof -
  have split: "py_range 0 n = py_range 0 (n - 1) @ [n - 1]"
    using assms by (simp add: py_range_def upto_rec2 [of 0 "n - 1"])
  have interior: "map (\<lambda>i. [[i, (i + 1) mod n, (i + 1) mod n + n], [i, (i + 1) mod n + n, i + n]]) (py_range 0 (n - 1))
     = map (\<lambda>i. [[i, i + 1, i + 1 + n], [i, i + 1 + n, i + n]]) (py_range 0 (n - 1))"
    by (rule map_cong) (auto simp: set_py_range)
  show ?thesis
    by (simp only: split map_append concat_append interior)
       (simp add: side_faces_def close_faces_def)
qed

lemma faces_in_range:
  assumes "3 \<le> n" "f \<in> set (build_faces n)" "k \<in> set f"
  shows "0 \<le> k \<and> k \<le> 2 * n - 1"
  using assms
  by (auto simp: build_faces_def side_faces_def close_faces_def bottom_cap_def top_cap_def set_py_range)

lemma faces_triples:
  assumes "f \<in> set (build_faces n)"
  shows "length f = 3"
  using assms
  by (auto simp: build_faces_def side_faces_def close_faces_def bottom_cap_def top_cap_def)

lemma fst_extrude_arrays:
  "fst (extrude_arrays self ops pts h) =
     bottom_ring ops (normalise ops pts) @ top_ring (normalise ops pts) h"
  by (simp add: extrude_arrays_def Let_def)

lemma snd_extrude_arrays:
  "snd (extrude_arrays self ops pts h) = build_faces (int (length pts))"
  by (simp add: extrude_arrays_def Let_def length_normalise)

lemma extrude_contour_via_arrays:
  assumes "extrude_contour self ops lib pts h = Inr m"
  shows "\<exists>m0 m1. Trimesh lib (fst (extrude_arrays self ops pts h))
                    (snd (extrude_arrays self ops pts h)) = Inr m0
           \<and> fix_normals lib m0 = Inr m1 \<and> fill_holes lib m1 = Inr m"
  using assms
  by (auto simp: extrude_contour_def split: if_splits prod.splits sum.splits)

lemma square_normalise:
  "normalise exact_ops square = [(- 20, 40), (20, 40), (20, - 40), (- 20, - 40)]"
  by (simp add: normalise_def flip_y_def scale_coords_def center_coords_def max_extent_def
      exact_ops_def square_def Let_def)

lemma build_faces_4:
  "build_faces 4 =
     [[0, 1, 5], [0, 5, 4], [1, 2, 6], [1, 6, 5], [2, 3, 7], [2, 7, 6],
      [3, 0, 4], [3, 4, 7], [0, 2, 1], [0, 3, 2], [4, 5, 6], [4, 6, 7]]"
  by code_simp

lemma side_wall_4:
  "side_faces 4 @ close_faces 4 =
     [[0, 1, 5], [0, 5, 4], [1, 2, 6], [1, 6, 5], [2, 3, 7], [2, 7, 6], [3, 0, 4], [3, 4, 7]]"
  by code_simp

lemma square_arrays:
  "extrude_arrays gen0 exact_ops square (7 / 2) =
     ([(- 20, 40, 0), (20, 40, 0), (20, - 40, 0), (- 20, - 40, 0),
       (- 20, 40, 7 / 2), (20, 40, 7 / 2), (20, - 40, 7 / 2), (- 20, - 40, 7 / 2)],
      [[0, 1, 5], [0, 5, 4], [1, 2, 6], [1, 6, 5], [2, 3, 7], [2, 7, 6],
       [3, 0, 4], [3, 4, 7], [0, 2, 1], [0, 3, 2], [4, 5, 6], [4, 6, 7]])"
proof -
  have v: "fst (extrude_arrays gen0 exact_ops square (7 / 2)) =
     [(- 20, 40, 0), (20, 40, 0), (20, - 40, 0), (- 20, - 40, 0),
       (- 20, 40, 7 / 2), (20, 40, 7 / 2), (20, - 40, 7 / 2), (- 20, - 40, 7 / 2)]"
    by (simp add: fst_extrude_arrays square_normalise bottom_ring_def top_ring_def)
       (simp add: exact_ops_def)
  have f: "snd (extrude_arrays gen0 exact_ops square (7 / 2)) =
      [[0, 1, 5], [0, 5, 4], [1, 2, 6], [1, 6, 5], [2, 3, 7], [2, 7, 6],
       [3, 0, 4], [3, 4, 7], [0, 2, 1], [0, 3, 2], [4, 5, 6], [4, 6, 7]]"
    by (simp add: snd_extrude_arrays square_def build_faces_4)
  show ?thesis using v f by (simp add: prod_eq_iff)
qed

lemma extrude_rows:
  "fst (extrude_arrays self ops pts h) =
     map (\<lambda>p. (fst (place ops pts p), snd (place ops pts p), f_lit ops 0)) pts @
     map (\<lambda>p. (fst (place ops pts p), snd (place ops pts p), h)) pts"
  by (simp add: fst_extrude_arrays normalise_pointwise bottom_ring_def top_ring_def
      case_prod_beta comp_def)

lemma length_extrude_rows: "length (fst (extrude_arrays self ops pts h)) = 2 * length pts"
  by (simp add: extrude_rows)

lemma card_keys_le: "card (key ` set vs) \<le> length vs"
  by (metis card_length length_map list.set_map)

lemma card_keys_distinct: "distinct (map key vs) \<Longrightarrow> card (key ` set vs) = length vs"
  by (metis distinct_card length_map list.set_map)

lemma card_keys_repeated:
  assumes "\<not> distinct xs"
  shows "card (key ` set (map g xs)) < length xs"
proof -
  have "\<not> distinct (map (key \<circ> g) xs)" using assms by (simp add: distinct_map)
  then have "card (set (map (key \<circ> g) xs)) \<noteq> length (map (key \<circ> g) xs)"
    using card_distinct by blast
  moreover have "card (set (map (key \<circ> g) xs)) \<le> length (map (key \<circ> g) xs)"
    by (rule card_length)
  ultimately show ?thesis by (simp add: image_comp)
qed

lemma card_keys_rings:
  assumes "\<not> distinct xs" and "3 \<le> length xs"
  shows "card (key ` set (map g xs @ map g' xs)) \<le> 2 * length xs - 2"
proof -
  have "card (key ` set (map g xs @ map g' xs)) \<le>
      card (key ` set (map g xs)) + card (key ` set (map g' xs))"
    by (simp add: image_Un card_Un_le)
  moreover have "card (key ` set (map g xs)) < length xs"
    by (rule card_keys_repeated [OF assms(1)])
  moreover have "card (key ` set (map g' xs)) < length xs"
    by (rule card_keys_repeated [OF assms(1)])
  ultimately show ?thesis using assms(2) by linarith
qed

lemma returned_vertex_count:
  assumes merge: "\<forall>vs fs m. Trimesh lib vs fs = Inr m \<longrightarrow> vertex_count lib m = card (key ` set vs)"
    and repair: "\<forall>m m'. fix_normals lib m = Inr m' \<or> fill_holes lib m = Inr m' \<longrightarrow>
                  vertex_count lib m' = vertex_count lib m"
    and run: "extrude_contour self ops lib pts h = Inr mesh_obj"
  shows "vertex_count lib mesh_obj = card (key ` set (fst (extrude_arrays self ops pts h)))"
proof -
  obtain m0 m1 where t: "Trimesh lib (fst (extrude_arrays self ops pts h))
        (snd (extrude_arrays self ops pts h)) = Inr m0"
    and f: "fix_normals lib m0 = Inr m1" and g: "fill_holes lib m1 = Inr mesh_obj"
    using extrude_contour_via_arrays [OF run] by blast
  have "vertex_count lib mesh_obj = vertex_count lib m1" using repair g by blast
  also have "\<dots> = vertex_count lib m0" using repair f by blast
  also have "\<dots> = card (key ` set (fst (extrude_arrays self ops pts h)))" using merge t by blast
  finally show ?thesis .
qed

lemma unique_rows_card: "length (unique_rows vs) = card (set vs)"
  by (simp add: unique_rows_def length_remdups_card_conv)

lemma test_lib_merges:
  "\<forall>vs fs m. Trimesh (test_lib contours on_export) vs fs = Inr m \<longrightarrow>
     vertex_count (test_lib contours on_export) m = card ((\<lambda>v. v) ` set vs)"
  by (auto simp: test_lib_def merge_vertices_def unique_rows_card)

lemma test_lib_repairs:
  "\<forall>m m'. fix_normals (test_lib contours on_export) m = Inr m' \<or>
           fill_holes (test_lib contours on_export) m = Inr m' \<longrightarrow>
     vertex_count (test_lib contours on_export) m' = vertex_count (test_lib contours on_export) m"
  by (auto simp: test_lib_def)

lemma square_mesh:
  "extrude_contour gen0 exact_ops (test_lib [square] (\<lambda>p. None)) square (7 / 2) =
     Inr (extrude_arrays gen0 exact_ops square (7 / 2))"
  by (simp add: extrude_contour_def square_arrays)
     (simp add: test_lib_def merge_vertices_def unique_rows_def square_def)

lemma closed_triangle_arrays:
  "extrude_arrays gen0 exact_ops closed_triangle (7 / 2) =
     ([(0, - 10, 0), (40, 10, 0), (- 40, 10, 0), (0, - 10, 0),
       (0, - 10, 7 / 2), (40, 10, 7 / 2), (- 40, 10, 7 / 2), (0, - 10, 7 / 2)],
      build_faces 4)"
proof -
  have n: "normalise exact_ops closed_triangle = [(0, - 10), (40, 10), (- 40, 10), (0, - 10)]"
    by (simp add: normalise_def flip_y_def scale_coords_def center_coords_def max_extent_def
        exact_ops_def closed_triangle_def Let_def)
  have v: "fst (extrude_arrays gen0 exact_ops closed_triangle (7 / 2)) =
     [(0, - 10, 0), (40, 10, 0), (- 40, 10, 0), (0, - 10, 0),
       (0, - 10, 7 / 2), (40, 10, 7 / 2), (- 40, 10, 7 / 2), (0, - 10, 7 / 2)]"
    by (simp add: fst_extrude_arrays n bottom_ring_def top_ring_def) (simp add: exact_ops_def)
  have f: "snd (extrude_arrays gen0 exact_ops closed_triangle (7 / 2)) = build_faces 4"
    by (simp add: snd_extrude_arrays closed_triangle_def)
  show ?thesis using v f by (simp add: prod_eq_iff)
qed

lemma closed_triangle_mesh:
  "extrude_contour gen0 exact_ops (test_lib [closed_triangle] (\<lambda>p. None)) closed_triangle (7 / 2) =
     Inr ([(0, - 10, 0), (40, 10, 0), (- 40, 10, 0),
           (0, - 10, 7 / 2), (40, 10, 7 / 2), (- 40, 10, 7 / 2)],
          [[0, 1, 4], [0, 4, 3], [1, 2, 5], [1, 5, 4], [2, 0, 3], [2, 3, 5],
           [0, 0, 3], [0, 3, 3], [0, 2, 1], [0, 0, 2], [3, 4, 5], [3, 5, 3]])"
  by (simp add: extrude_contour_def closed_triangle_arrays build_faces_4)
     (simp add: test_lib_def merge_vertices_def unique_rows_def closed_triangle_def)

theorem merged_vertex_count_counterexample:
  "3 \<le> length closed_triangle
   \<and> length (fst (extrude_arrays gen0 exact_ops closed_triangle (7 / 2))) = 2 * length closed_triangle
   \<and> extrude_contour gen0 exact_ops (test_lib [closed_triangle] (\<lambda>p. None)) closed_triangle (7 / 2) =
     Inr ([(0, - 10, 0), (40, 10, 0), (- 40, 10, 0),
           (0, - 10, 7 / 2), (40, 10, 7 / 2), (- 40, 10, 7 / 2)],
          [[0, 1, 4], [0, 4, 3], [1, 2, 5], [1, 5, 4], [2, 0, 3], [2, 3, 5],
           [0, 0, 3], [0, 3, 3], [0, 2, 1], [0, 0, 2], [3, 4, 5], [3, 5, 3]])
   \<and> vertex_count (test_lib [closed_triangle] (\<lambda>p. None))
        ([(0, - 10, 0), (40, 10, 0), (- 40, 10, 0),
          (0, - 10, 7 / 2), (40, 10, 7 / 2), (- 40, 10, 7 / 2)],
         [[0, 1, 4], [0, 4, 3], [1, 2, 5], [1, 5, 4], [2, 0, 3], [2, 3, 5],
          [0, 0, 3], [0, 3, 3], [0, 2, 1], [0, 0, 2], [3, 4, 5], [3, 5, 3]]) = 6
   \<and> (6::nat) \<noteq> 2 * length closed_triangle"
  by (simp add: closed_triangle_mesh length_extrude_rows)
     (simp add: test_lib_def closed_triangle_def)

text \<open>
  C1 (as amended). For a contour polyline of \<open>n \<ge> 3\<close> points the vertex array that the
  extrusion hands to the mesh constructor is the bottom ring followed by the top ring and
  nothing else, \<open>2 n\<close> rows. The mesh library merges rows it takes for the same position
  (rows with the same \<open>key\<close>) when it builds the mesh, and the repair calls add no
  vertex; so the mesh that \<open>_extrude_contour\<close> returns has one vertex for each key
  among the rows: at most \<open>2 n\<close>, exactly \<open>2 n\<close> when no two rows are merged, and at
  most \<open>2 n - 2\<close> when the polyline repeats a point, as a closed contour does.
\<close>

theorem extrude_vertex_count:
  assumes "3 \<le> length contour_points"
    and "\<forall>vs fs m. Trimesh lib vs fs = Inr m \<longrightarrow> vertex_count lib m = card (key ` set vs)"
    and "\<forall>m m'. fix_normals lib m = Inr m' \<or> fill_holes lib m = Inr m' \<longrightarrow>
           vertex_count lib m' = vertex_count lib m"
    and "extrude_contour self ops lib contour_points height = Inr mesh_obj"
  shows "fst (extrude_arrays self ops contour_points height) =
           map (\<lambda>p. (fst (place ops contour_points p), snd (place ops contour_points p), f_lit ops 0))
               contour_points @
           map (\<lambda>p. (fst (place ops contour_points p), snd (place ops contour_points p), height))
               contour_points
       \<and> length (fst (extrude_arrays self ops contour_points height)) = 2 * length contour_points
       \<and> vertex_count lib mesh_obj =
           card (key ` set (fst (extrude_arrays self ops contour_points height)))
       \<and> vertex_count lib mesh_obj \<le> 2 * length contour_points
       \<and> (distinct (map key (fst (extrude_arrays self ops contour_points height))) \<longrightarrow>
            vertex_count lib mesh_obj = 2 * length contour_points)
       \<and> (\<not> distinct contour_points \<longrightarrow>
            vertex_count lib mesh_obj \<le> 2 * length contour_points - 2)"
proof -
  let ?vs = "fst (extrude_arrays self ops contour_points height)"
  have count: "vertex_count lib mesh_obj = card (key ` set ?vs)"
    by (rule returned_vertex_count [OF assms(2) assms(3) assms(4)])
  have len: "length ?vs = 2 * length contour_points" by (rule length_extrude_rows)
  have le: "vertex_count lib mesh_obj \<le> 2 * length contour_points"
    using card_keys_le [of key ?vs] by (simp add: count len)
  have eq: "distinct (map key ?vs) \<longrightarrow> vertex_count lib mesh_obj = 2 * length contour_points"
    using card_keys_distinct [of key ?vs] by (simp add: count len)
  have fewer: "\<not> distinct contour_points \<longrightarrow>
      vertex_count lib mesh_obj \<le> 2 * length contour_points - 2"
    using card_keys_rings [OF _ assms(1), of key] by (simp add: count extrude_rows)
  show ?thesis
    using count len le eq fewer extrude_rows [of self ops contour_points height] by blast
qed

theorem extrude_vertex_count_witness:
  "3 \<le> length square
   \<and> extrude_contour gen0 exact_ops (test_lib [square] (\<lambda>p. None)) square (7 / 2) =
       Inr (extrude_arrays gen0 exact_ops square (7 / 2))
   \<and> distinct (fst (extrude_arrays gen0 exact_ops square (7 / 2)))
   \<and> vertex_count (test_lib [square] (\<lambda>p. None)) (extrude_arrays gen0 exact_ops square (7 / 2)) = 8
   \<and> \<not> distinct closed_triangle
   \<and> vertex_count (test_lib [closed_triangle] (\<lambda>p. None))
        ([(0, - 10, 0), (40, 10, 0), (- 40, 10, 0),
          (0, - 10, 7 / 2), (40, 10, 7 / 2), (- 40, 10, 7 / 2)],
         [[0, 1, 4], [0, 4, 3], [1, 2, 5], [1, 5, 4], [2, 0, 3], [2, 3, 5],
          [0, 0, 3], [0, 3, 3], [0, 2, 1], [0, 0, 2], [3, 4, 5], [3, 5, 3]]) \<le> 2 * 4 - 2"
proof -
  have h: "3 \<le> length square" by (simp add: square_def)
  have d: "distinct (map (\<lambda>v. v) (fst (extrude_arrays gen0 exact_ops square (7 / 2))))"
    by (simp add: square_arrays)
  have "vertex_count (test_lib [square] (\<lambda>p. None)) (extrude_arrays gen0 exact_ops square (7 / 2)) =
      2 * length square"
    using extrude_vertex_count [OF h test_lib_merges test_lib_repairs square_mesh] d by blast
  then have a: "vertex_count (test_lib [square] (\<lambda>p. None))
      (extrude_arrays gen0 exact_ops square (7 / 2)) = 8"
    by (simp add: square_def)
  have h2: "3 \<le> length closed_triangle" by (simp add: closed_triangle_def)
  have nd: "\<not> distinct closed_triangle" by (simp add: closed_triangle_def)
  have "vertex_count (test_lib [closed_triangle] (\<lambda>p. None))
        ([(0, - 10, 0), (40, 10, 0), (- 40, 10, 0),
          (0, - 10, 7 / 2), (40, 10, 7 / 2), (- 40, 10, 7 / 2)],
         [[0, 1, 4], [0, 4, 3], [1, 2, 5], [1, 5, 4], [2, 0, 3], [2, 3, 5],
          [0, 0, 3], [0, 3, 3], [0, 2, 1], [0, 0, 2], [3, 4, 5], [3, 5, 3]])
      \<le> 2 * length closed_triangle - 2"
    using extrude_vertex_count [OF h2 test_lib_merges test_lib_repairs closed_triangle_mesh] nd
    by blast
  then show ?thesis using h a d nd square_mesh by (simp add: closed_triangle_def)
qed

text \<open>
  C5. For a polyline of \<open>n \<ge> 3\<close> points and a height \<open>h\<close> the vertices are a bottom
  ring at \<open>z = 0\<close> and a top ring at \<open>z = h\<close>, each holding the placed points in the
  order of the input polyline. The side wall has exactly \<open>2 n\<close> triangles, two for each
  \<open>i < n\<close>, between the vertices \<open>i\<close> and \<open>(i + 1) mod n\<close> of the bottom ring and
  their partners in the top ring: the two faces appended to close the loop are the ones
  this pattern gives for \<open>i = n - 1\<close>.
\<close>

theorem extrude_rings_and_side_wall:
  assumes "3 \<le> length contour_points"
  shows "fst (extrude_arrays self ops contour_points height) =
           map (\<lambda>p. (fst (place ops contour_points p), snd (place ops contour_points p), f_lit ops 0))
               contour_points @
           map (\<lambda>p. (fst (place ops contour_points p), snd (place ops contour_points p), height))
               contour_points
       \<and> snd (extrude_arrays self ops contour_points height) =
           concat (map (\<lambda>i. [[i, (i + 1) mod int (length contour_points),
                                 (i + 1) mod int (length contour_points) + int (length contour_points)],
                              [i, (i + 1) mod int (length contour_points) + int (length contour_points),
                                 i + int (length contour_points)]])
                       (py_range 0 (int (length contour_points)))) @
           bottom_cap (int (length contour_points)) @ top_cap (int (length contour_points))
       \<and> length (side_faces (int (length contour_points)) @
                 close_faces (int (length contour_points))) = 2 * length contour_points
       \<and> side_faces (int (length contour_points)) @ close_faces (int (length contour_points)) =
           concat (map (\<lambda>i. [[i, (i + 1) mod int (length contour_points),
                                 (i + 1) mod int (length contour_points) + int (length contour_points)],
                              [i, (i + 1) mod int (length contour_points) + int (length contour_points),
                                 i + int (length contour_points)]])
                       (py_range 0 (int (length contour_points))))"
proof -
  let ?n = "int (length contour_points)"
  have n: "1 \<le> ?n" using assms by simp
  have wall: "side_faces ?n @ close_faces ?n =
      concat (map (\<lambda>i. [[i, (i + 1) mod ?n, (i + 1) mod ?n + ?n], [i, (i + 1) mod ?n + ?n, i + ?n]])
                  (py_range 0 ?n))"
    by (rule side_wall_pattern [OF n])
  have verts: "fst (extrude_arrays self ops contour_points height) =
           map (\<lambda>p. (fst (place ops contour_points p), snd (place ops contour_points p), f_lit ops 0))
               contour_points @
           map (\<lambda>p. (fst (place ops contour_points p), snd (place ops contour_points p), height))
               contour_points"
    by (simp add: fst_extrude_arrays normalise_pointwise bottom_ring_def top_ring_def
        case_prod_beta comp_def)
  have faces: "snd (extrude_arrays self ops contour_points height) =
      (side_faces ?n @ close_faces ?n) @ bottom_cap ?n @ top_cap ?n"
    by (simp add: snd_extrude_arrays build_faces_def)
  have len: "length (side_faces ?n @ close_faces ?n) = 2 * length contour_points"
    using assms by (simp add: length_side_faces close_faces_def)
  show ?thesis
    using verts faces len wall by (simp only: simp_thms)
qed

theorem extrude_rings_and_side_wall_witness:
  "3 \<le> length square
   \<and> fst (extrude_arrays gen0 exact_ops square (7 / 2)) =
       [(- 20, 40, 0), (20, 40, 0), (20, - 40, 0), (- 20, - 40, 0),
        (- 20, 40, 7 / 2), (20, 40, 7 / 2), (20, - 40, 7 / 2), (- 20, - 40, 7 / 2)]
   \<and> side_faces 4 @ close_faces 4 =
       [[0, 1, 5], [0, 5, 4], [1, 2, 6], [1, 6, 5], [2, 3, 7], [2, 7, 6], [3, 0, 4], [3, 4, 7]]
   \<and> length (side_faces 4 @ close_faces 4) = 8"
proof -
  have h: "3 \<le> length square" by (simp add: square_def)
  have n: "int (length square) = 4" by (simp add: square_def)
  have "length (side_faces (int (length square)) @ close_faces (int (length square))) =
      2 * length square"
    using extrude_rings_and_side_wall [OF h, of gen0 exact_ops "7 / 2"] by blast
  then have len: "length (side_faces 4 @ close_faces 4) = 8"
    by (simp add: n) (simp add: square_def)
  show ?thesis using h len by (simp add: square_arrays side_wall_4)
qed

text \<open>
  C10. For a polyline of \<open>n \<ge> 3\<close> points the extrusion constructs exactly
  \<open>4 n - 4\<close> faces (\<open>2 n\<close> for the side wall, \<open>n - 2\<close> for each cap), every face is
  a triple, and every index of every face lies in \<open>[0, 2 n - 1]\<close>, the index range of
  the vertex array.
\<close>

theorem extrude_faces_in_range:
  assumes "3 \<le> length contour_points"
  shows "length (snd (extrude_arrays self ops contour_points height)) = 4 * length contour_points - 4
       \<and> length (side_faces (int (length contour_points)) @
                 close_faces (int (length contour_points))) = 2 * length contour_points
       \<and> length (bottom_cap (int (length contour_points))) = length contour_points - 2
       \<and> length (top_cap (int (length contour_points))) = length contour_points - 2
       \<and> (\<forall>f \<in> set (snd (extrude_arrays self ops contour_points height)).
            length f = 3 \<and>
            (\<forall>k \<in> set f. 0 \<le> k \<and> k \<le> 2 * int (length contour_points) - 1
                \<and> nat k < length (fst (extrude_arrays self ops contour_points height))))"
proof -
  let ?n = "int (length contour_points)"
  have n: "3 \<le> ?n" using assms by simp
  have total: "length (build_faces ?n) = 4 * length contour_points - 4"
    using length_build_faces [OF n] by (simp add: nat_diff_distrib' nat_mult_distrib)
  have side: "length (side_faces ?n @ close_faces ?n) = 2 * length contour_points"
    using assms by (simp add: length_side_faces close_faces_def)
  have caps: "length (bottom_cap ?n) = length contour_points - 2"
             "length (top_cap ?n) = length contour_points - 2"
    using assms by (simp_all add: bottom_cap_def top_cap_def length_py_range nat_diff_distrib')
  have nverts: "length (fst (extrude_arrays self ops contour_points height)) = 2 * length contour_points"
    by (simp add: fst_extrude_arrays bottom_ring_def top_ring_def length_normalise)
  have idx: "\<forall>f \<in> set (build_faces ?n). length f = 3 \<and>
            (\<forall>k \<in> set f. 0 \<le> k \<and> k \<le> 2 * ?n - 1 \<and> nat k < 2 * length contour_points)"
  proof (intro ballI conjI)
    fix f assume f: "f \<in> set (build_faces ?n)"
    show "length f = 3" by (rule faces_triples [OF f])
  next
    fix f k assume f: "f \<in> set (build_faces ?n)" and k: "k \<in> set f"
    from faces_in_range [OF n f k] show "0 \<le> k" by simp
  next
    fix f k assume f: "f \<in> set (build_faces ?n)" and k: "k \<in> set f"
    from faces_in_range [OF n f k] show "k \<le> 2 * ?n - 1" by simp
  next
    fix f k assume f: "f \<in> set (build_faces ?n)" and k: "k \<in> set f"
    from faces_in_range [OF n f k] show "nat k < 2 * length contour_points" by linarith
  qed
  show ?thesis
    using total side caps idx by (simp add: snd_extrude_arrays nverts)
qed

theorem extrude_faces_in_range_witness:
  "3 \<le> length square
   \<and> length (snd (extrude_arrays gen0 exact_ops square (7 / 2))) = 12
   \<and> snd (extrude_arrays gen0 exact_ops square (7 / 2)) =
      [[0, 1, 5], [0, 5, 4], [1, 2, 6], [1, 6, 5], [2, 3, 7], [2, 7, 6],
       [3, 0, 4], [3, 4, 7], [0, 2, 1], [0, 3, 2], [4, 5, 6], [4, 6, 7]]"
proof -
  have h: "3 \<le> length square" by (simp add: square_def)
  have "length (snd (extrude_arrays gen0 exact_ops square (7 / 2))) = 4 * length square - 4"
    using extrude_faces_in_range [OF h, of gen0 exact_ops "7 / 2"] by blast
  then show ?thesis using h by (simp add: square_arrays)
qed

lemma flip_y_columns:
  "map fst (flip_y ops coords) = map fst coords
   \<and> map snd (flip_y ops coords) = map (f_neg ops) (map snd coords)"
  by (simp add: flip_y_def case_prod_beta comp_def)

text \<open>
  C4. The claim is that the negated coordinate is the image row. Contour points are
  (row, column) pairs and the code negates column 1 of the array, so it is the image
  column that is negated and the row that is kept, for every input
  (\<open>flip_y_columns\<close>). On the square with corners (0, 0), (2, 0), (2, 4), (0, 4) the
  centred and scaled rows are \<open>-20, 20, 20, -20\<close> and stay so after the flip, while
  the columns \<open>-40, -40, 40, 40\<close> change sign. Every floating-point operation on this
  input is exact.
\<close>

theorem flip_negates_column_not_row:
  "scale_coords exact_ops (center_coords exact_ops square) =
     [(- 20, - 40), (20, - 40), (20, 40), (- 20, 40)]
   \<and> normalise exact_ops square = [(- 20, 40), (20, 40), (20, - 40), (- 20, - 40)]
   \<and> map fst (normalise exact_ops square) =
       map fst (scale_coords exact_ops (center_coords exact_ops square))
   \<and> map fst (normalise exact_ops square) \<noteq>
       map (\<lambda>p. - fst p) (scale_coords exact_ops (center_coords exact_ops square))"
proof -
  have s: "scale_coords exact_ops (center_coords exact_ops square) =
     [(- 20, - 40), (20, - 40), (20, 40), (- 20, 40)]"
    by (simp add: scale_coords_def center_coords_def max_extent_def exact_ops_def square_def Let_def)
  show ?thesis by (simp add: s square_normalise)
qed

section \<open>The loop over the variants\<close>

lemma started_append: "started (xs @ ys) = started xs @ started ys"
  by (induction xs rule: started.induct) simp_all

lemma handler_Exc:
  "handler (Exc msg) w = (w\<lparr>console := console w @ [LogError (Exc msg), LogTraceback (Exc msg)]\<rparr>, None)"
  by (simp add: handler_def)

lemma handler_BaseExc: "handler (BaseExc msg) w = (w, Some (BaseExc msg))"
  by (simp add: handler_def)

lemma handler_result: "snd (handler e w) \<noteq> Some (Exc msg)"
  by (cases e) (simp_all add: handler_def)

lemma handler_files: "files (fst (handler e w)) = files w"
  by (cases e) (simp_all add: handler_def)

lemma handler_started: "started (console (fst (handler e w))) = started (console w)"
  by (cases e) (simp_all add: handler_def started_append)

lemma create_letter_mesh_files:
  "files (fst (create_letter_mesh self ops lib letter t w)) = files w"
  by (simp add: create_letter_mesh_def split: sum.splits)

lemma create_letter_mesh_started:
  "started (console (fst (create_letter_mesh self ops lib letter t w))) = started (console w)"
  by (simp add: create_letter_mesh_def started_append split: sum.splits)

lemma try_body_files:
  "files (fst (try_body self ops lib letter variant w)) = files w \<or>
   files (fst (try_body self ops lib letter variant w)) =
     files w @ [path_str (output_file self letter (fst variant))]"
proof -
  obtain v specs where variant: "variant = (v, specs)" by (cases variant)
  obtain w1 r where c: "create_letter_mesh self ops lib letter (f_lit ops (thickness specs)) w = (w1, r)"
    by (cases "create_letter_mesh self ops lib letter (f_lit ops (thickness specs)) w")
  have "files w1 = files w"
    using create_letter_mesh_files [of self ops lib letter "f_lit ops (thickness specs)" w] c by simp
  then show ?thesis
    by (simp add: try_body_def variant c Let_def split: sum.splits option.splits)
qed

lemma try_body_started:
  "started (console (fst (try_body self ops lib letter variant w))) = started (console w)"
proof -
  obtain v specs where variant: "variant = (v, specs)" by (cases variant)
  obtain w1 r where c: "create_letter_mesh self ops lib letter (f_lit ops (thickness specs)) w = (w1, r)"
    by (cases "create_letter_mesh self ops lib letter (f_lit ops (thickness specs)) w")
  have "started (console w1) = started (console w)"
    using create_letter_mesh_started [of self ops lib letter "f_lit ops (thickness specs)" w] c
    by simp
  then show ?thesis
    by (simp add: try_body_def variant c Let_def started_append split: sum.splits option.splits)
qed

lemma generate_variant_result:
  "snd (generate_variant self ops lib letter variant w) \<noteq> Some (Exc msg)"
proof -
  let ?w = "w\<lparr>console := console w @ [LogCreating (fst variant) (thickness (snd variant))]\<rparr>"
  obtain w1 r where t: "try_body self ops lib letter variant ?w = (w1, r)"
    by (cases "try_body self ops lib letter variant ?w")
  show ?thesis
    using handler_result [of _ w1 msg]
    by (simp add: generate_variant_def t split: option.splits)
qed

lemma generate_variant_files:
  "files (fst (generate_variant self ops lib letter variant w)) = files w \<or>
   files (fst (generate_variant self ops lib letter variant w)) =
     files w @ [path_str (output_file self letter (fst variant))]"
proof -
  let ?w = "w\<lparr>console := console w @ [LogCreating (fst variant) (thickness (snd variant))]\<rparr>"
  obtain w1 r where t: "try_body self ops lib letter variant ?w = (w1, r)"
    by (cases "try_body self ops lib letter variant ?w")
  have "files w1 = files w \<or> files w1 = files w @ [path_str (output_file self letter (fst variant))]"
    using try_body_files [of self ops lib letter variant ?w] t by simp
  then show ?thesis
    by (auto simp: generate_variant_def t handler_files split: option.splits)
qed

lemma generate_variant_started:
  "started (console (fst (generate_variant self ops lib letter variant w))) =
     started (console w) @ [fst variant]"
proof -
  let ?w = "w\<lparr>console := console w @ [LogCreating (fst variant) (thickness (snd variant))]\<rparr>"
  obtain w1 r where t: "try_body self ops lib letter variant ?w = (w1, r)"
    by (cases "try_body self ops lib letter variant ?w")
  have "started (console w1) = started (console w) @ [fst variant]"
    using try_body_started [of self ops lib letter variant ?w] t by (simp add: started_append)
  then show ?thesis
    by (simp add: generate_variant_def t handler_started split: option.splits)
qed

lemma generate_loop_result:
  "snd (generate_loop self ops lib letter variants w) \<noteq> Some (Exc msg)"
proof (induction variants arbitrary: w)
  case Nil
  show ?case by simp
next
  case (Cons variant rest)
  obtain w1 r where g: "generate_variant self ops lib letter variant w = (w1, r)"
    by (cases "generate_variant self ops lib letter variant w")
  show ?case
    using Cons.IH [of w1] generate_variant_result [of self ops lib letter variant w msg]
    by (auto simp: g split: option.splits)
qed

lemma generate_loop_files:
  "\<exists>new. files (fst (generate_loop self ops lib letter variants w)) = files w @ new
     \<and> set new \<subseteq> (\<lambda>v. path_str (output_file self letter v)) ` fst ` set variants"
proof (induction variants arbitrary: w)
  case Nil
  show ?case by simp
next
  case (Cons variant rest)
  obtain w1 r where g: "generate_variant self ops lib letter variant w = (w1, r)"
    by (cases "generate_variant self ops lib letter variant w")
  have step: "files w1 = files w \<or> files w1 = files w @ [path_str (output_file self letter (fst variant))]"
    using generate_variant_files [of self ops lib letter variant w] g by simp
  show ?case
  proof (cases r)
    case None
    obtain new where new: "files (fst (generate_loop self ops lib letter rest w1)) = files w1 @ new"
      "set new \<subseteq> (\<lambda>v. path_str (output_file self letter v)) ` fst ` set rest"
      using Cons.IH [of w1] by blast
    from step show ?thesis
    proof
      assume "files w1 = files w"
      with new show ?thesis by (auto simp: g None)
    next
      assume "files w1 = files w @ [path_str (output_file self letter (fst variant))]"
      with new have "files (fst (generate_loop self ops lib letter (variant # rest) w)) =
          files w @ (path_str (output_file self letter (fst variant)) # new)"
        by (simp add: g None)
      moreover have "set (path_str (output_file self letter (fst variant)) # new) \<subseteq>
          (\<lambda>v. path_str (output_file self letter v)) ` fst ` set (variant # rest)"
        using new(2) by auto
      ultimately show ?thesis by blast
    qed
  next
    case (Some e)
    from step show ?thesis
    proof
      assume "files w1 = files w"
      then show ?thesis by (simp add: g Some)
    next
      assume "files w1 = files w @ [path_str (output_file self letter (fst variant))]"
      then show ?thesis by (simp add: g Some)
    qed
  qed
qed

lemma generate_loop_started:
  "snd (generate_loop self ops lib letter variants w) = None \<Longrightarrow>
   started (console (fst (generate_loop self ops lib letter variants w))) =
     started (console w) @ map fst variants"
proof (induction variants arbitrary: w)
  case Nil
  show ?case by simp
next
  case (Cons variant rest)
  obtain w1 r where g: "generate_variant self ops lib letter variant w = (w1, r)"
    by (cases "generate_variant self ops lib letter variant w")
  have s: "started (console w1) = started (console w) @ [fst variant]"
    using generate_variant_started [of self ops lib letter variant w] g by simp
  show ?case
  proof (cases r)
    case None
    with Cons.prems g have "snd (generate_loop self ops lib letter rest w1) = None" by simp
    from Cons.IH [OF this] show ?thesis by (simp add: g None s)
  next
    case (Some e)
    with Cons.prems g show ?thesis by simp
  qed
qed

section \<open>Downsampling\<close>

lemma length_stride:
  "0 < k \<Longrightarrow> length (stride k xs) = (length xs + k - 1) div k"
proof (induction k xs rule: stride.induct)
  case (1 step)
  then show ?case by simp
next
  case (2 step x xs)
  show ?case
  proof (cases "step - 1 \<le> length xs")
    case True
    with 2 have "length (stride step (drop (step - 1) xs)) = length xs div step"
      by simp
    moreover have "(length xs + step) div step = length xs div step + 1"
      using 2(2) by simp
    ultimately show ?thesis by simp
  next
    case False
    then have "drop (step - 1) xs = []" by simp
    moreover have "(length xs + step) div step = 1"
      using False 2(2) by simp
    ultimately show ?thesis by simp
  qed
qed

lemma nth_stride:
  "0 < k \<Longrightarrow> i < length (stride k xs) \<Longrightarrow> stride k xs ! i = xs ! (i * k)"
proof (induction k xs arbitrary: i rule: stride.induct)
  case (1 step)
  then show ?case by simp
next
  case (2 step x xs)
  show ?case
  proof (cases i)
    case 0
    then show ?thesis by simp
  next
    case (Suc j)
    with 2(3) have j: "j < length (stride step (drop (step - 1) xs))" by simp
    then have ne: "drop (step - 1) xs \<noteq> []" by (cases "drop (step - 1) xs") auto
    then have le: "step - 1 < length xs" by simp
    have "stride step (drop (step - 1) xs) ! j = drop (step - 1) xs ! (j * step)"
      using 2(1) [OF 2(2) j] .
    also have "\<dots> = xs ! (step - 1 + j * step)"
      using le by simp
    finally have "stride step (drop (step - 1) xs) ! j = xs ! (step - 1 + j * step)" .
    moreover have "Suc j * step = Suc (step - 1 + j * step)"
      using 2(2) by simp
    ultimately show ?thesis using Suc by simp
  qed
qed

lemma stride_one: "stride (Suc 0) xs = xs"
  by (induction xs) simp_all

lemma simplify_count:
  "length (simplify c) = (length c + max 1 (length c div 100) - 1) div max 1 (length c div 100)"
  by (simp add: simplify_def Let_def length_stride)

lemma simplify_nth:
  "simplify c = map (\<lambda>i. c ! (i * max 1 (length c div 100))) [0..<length (simplify c)]"
proof (rule nth_equalityI)
  show "length (simplify c) =
      length (map (\<lambda>i. c ! (i * max 1 (length c div 100))) [0..<length (simplify c)])"
    by simp
next
  fix i assume "i < length (simplify c)"
  then show "simplify c ! i =
      map (\<lambda>i. c ! (i * max 1 (length c div 100))) [0..<length (simplify c)] ! i"
    using nth_stride [of "max 1 (length c div 100)" i c]
    by (simp add: simplify_def Let_def)
qed

lemma div_100_bounds: "(n::nat) < 100 * (n div 100) + 100" "100 * (n div 100) \<le> n"
  by (metis mod_less_divisor mult.commute div_mult_mod_eq add_strict_left_mono zero_less_numeral) simp

lemma simplify_upper: "length (simplify c) \<le> 199"
proof (cases "length c < 100")
  case True
  then show ?thesis by (simp add: simplify_count)
next
  case False
  define q where "q = length c div 100"
  have q: "1 \<le> q" using False by (simp add: q_def)
  have "length c < 100 * q + 100" unfolding q_def by (rule div_100_bounds)
  then have "length c + q - 1 < 200 * q" using q by linarith
  then have "(length c + q - 1) div q < 200"
    using q by (simp add: div_less_iff_less_mult)
  then show ?thesis using q by (simp add: simplify_count q_def max_def)
qed

lemma simplify_lower: "100 \<le> length c \<Longrightarrow> 100 \<le> length (simplify c)"
proof -
  assume a: "100 \<le> length c"
  define q where "q = length c div 100"
  have q: "1 \<le> q" using a by (simp add: q_def)
  have "100 * q \<le> length c" unfolding q_def by (rule div_100_bounds)
  then have "100 * q \<le> length c + q - 1" using q by linarith
  then have "100 \<le> (length c + q - 1) div q"
    using q by (simp add: less_eq_div_iff_mult_less_eq)
  then show ?thesis using q by (simp add: simplify_count q_def max_def)
qed

lemma simplify_short: "length c < 200 \<Longrightarrow> simplify c = c"
proof -
  assume "length c < 200"
  then have "max 1 (length c div 100) = Suc 0" by (simp add: max_def) linarith
  then show ?thesis by (simp add: simplify_def Let_def stride_one)
qed

lemma simplify_near_100:
  assumes "100 \<le> length c"
  shows "length (simplify c) \<le> 100 + (98 + max 1 (length c div 100)) div max 1 (length c div 100)"
proof -
  define q where "q = length c div 100"
  have q: "1 \<le> q" using assms by (simp add: q_def)
  have "length c < 100 * q + 100" unfolding q_def by (rule div_100_bounds)
  then have "length c + q - 1 \<le> (98 + q) + 100 * q" using q by linarith
  then have "(length c + q - 1) div q \<le> ((98 + q) + 100 * q) div q" by (rule div_le_mono)
  also have "\<dots> = 100 + (98 + q) div q" using q by simp
  finally show ?thesis using q by (simp add: simplify_count q_def max_def)
qed

lemma simplify_from_200:
  assumes "200 \<le> length c"
  shows "length (simplify c) \<le> 150"
proof -
  define q where "q = length c div 100"
  have q: "2 \<le> q" using assms by (simp add: q_def)
  have "length c < 100 * q + 100" unfolding q_def by (rule div_100_bounds)
  then have "length c + q - 1 < 151 * q" using q by linarith
  then have "(length c + q - 1) div q < 151"
    using q by (simp add: div_less_iff_less_mult)
  then show ?thesis using q by (simp add: simplify_count q_def max_def)
qed

lemma length_contour199: "length contour199 = 199"
  by (simp add: contour199_def)

lemma longest_is_longest:
  "longest c cs \<in> set (c # cs) \<and> (\<forall>d \<in> set (c # cs). length d \<le> length (longest c cs))"
proof (induction cs arbitrary: c)
  case Nil
  show ?case by simp
next
  case (Cons d ds)
  show ?case using Cons [of "if length c < length d then d else c"] by auto
qed

theorem downsample_199_counterexample:
  "find_contours (test_lib [contour199] (\<lambda>p. None)) [] = Inr [contour199]
   \<and> extract_contour gen0 (test_lib [contour199] (\<lambda>p. None)) [] = Inr contour199
   \<and> length contour199 = 199
   \<and> \<not> length contour199 \<le> 100"
proof -
  have s: "simplify contour199 = contour199"
    by (rule simplify_short) (simp add: length_contour199)
  have f: "find_contours (test_lib [contour199] (\<lambda>p. None)) [] = Inr [contour199]"
    by (simp add: test_lib_def)
  show ?thesis by (simp add: extract_contour_def f s length_contour199)
qed

text \<open>
  C2 (as amended). When the tracer returns at least one contour, the extractor returns
  the longest one downsampled by fixed-stride point skipping: with
  \<open>step = max 1 (len div 100)\<close> the output is the points at indices
  \<open>0, step, 2 step, ...\<close>, that is \<open>(len + step - 1) div step\<close> points. The count is
  not bounded near 100 for every length: a contour shorter than 200 points is returned
  whole, so up to 199 points come out. For every length the count is at most 199; from
  100 points on it is at least 100 and at most \<open>100 + (98 + step) div step\<close>, which is
  at most 150 from 200 points on.
\<close>

theorem downsample_stride_bounded:
  assumes "find_contours lib msk = Inr (c # cs)"
  shows "extract_contour self lib msk = Inr (simplify (longest c cs))
       \<and> simplify (longest c cs) =
           map (\<lambda>i. longest c cs ! (i * max 1 (length (longest c cs) div 100)))
               [0..<length (simplify (longest c cs))]
       \<and> length (simplify (longest c cs)) =
           (length (longest c cs) + max 1 (length (longest c cs) div 100) - 1)
             div max 1 (length (longest c cs) div 100)
       \<and> length (simplify (longest c cs)) \<le> 199
       \<and> (100 \<le> length (longest c cs) \<longrightarrow> 100 \<le> length (simplify (longest c cs)))
       \<and> (length (longest c cs) < 200 \<longrightarrow> simplify (longest c cs) = longest c cs)
       \<and> (100 \<le> length (longest c cs) \<longrightarrow>
            length (simplify (longest c cs)) \<le>
              100 + (98 + max 1 (length (longest c cs) div 100))
                      div max 1 (length (longest c cs) div 100))
       \<and> (200 \<le> length (longest c cs) \<longrightarrow> length (simplify (longest c cs)) \<le> 150)"
proof -
  have e: "extract_contour self lib msk = Inr (simplify (longest c cs))"
    using assms by (simp add: extract_contour_def)
  show ?thesis
    using e simplify_nth [of "longest c cs"] simplify_count [of "longest c cs"]
      simplify_upper [of "longest c cs"] simplify_lower [of "longest c cs"]
      simplify_short [of "longest c cs"] simplify_near_100 [of "longest c cs"]
      simplify_from_200 [of "longest c cs"]
    by blast
qed

lemma length_long_contour: "length long_contour = 250"
  by (simp add: long_contour_def)

lemma length_simplify_long_contour: "length (simplify long_contour) = 125"
proof -
  have "max 1 (250 div 100) = (2::nat)" by simp
  then have "length (simplify long_contour) = (250 + 2 - 1) div 2"
    by (simp only: simplify_count length_long_contour)
  then show ?thesis by simp
qed

theorem downsample_stride_bounded_witness:
  "find_contours (test_lib [square, long_contour] (\<lambda>p. None)) [] = Inr [square, long_contour]
   \<and> longest square [long_contour] = long_contour
   \<and> extract_contour gen0 (test_lib [square, long_contour] (\<lambda>p. None)) [] =
       Inr (simplify long_contour)
   \<and> length (simplify long_contour) = 125
   \<and> 100 \<le> length (simplify long_contour) \<and> length (simplify long_contour) \<le> 150"
proof -
  have h: "find_contours (test_lib [square, long_contour] (\<lambda>p. None)) [] =
      Inr (square # [long_contour])"
    by (simp add: test_lib_def)
  have l: "longest square [long_contour] = long_contour"
    by (simp add: square_def length_long_contour)
  note w = downsample_stride_bounded [OF h, of gen0, unfolded l]
  from w have e: "extract_contour gen0 (test_lib [square, long_contour] (\<lambda>p. None)) [] =
      Inr (simplify long_contour)" by blast
  have "200 \<le> length long_contour" by (simp add: length_long_contour)
  with w have b: "length (simplify long_contour) \<le> 150" by blast
  have "100 \<le> length long_contour" by (simp add: length_long_contour)
  with w have b2: "100 \<le> length (simplify long_contour)" by blast
  show ?thesis using h l e b b2 by (simp add: length_simplify_long_contour)
qed

section \<open>Contours that are too short\<close>

lemma short_create:
  assumes "rasterise self lib letter = Inr msk"
    and "extract_contour self lib msk = Inr cp" and "length cp < 3"
  shows "create_letter_mesh self ops lib letter t w =
           (w\<lparr>console := console w @ [LogWarning letter]\<rparr>, Inr None)"
  using assms by (simp add: create_letter_mesh_def)

lemma short_variant:
  assumes "rasterise self lib letter = Inr msk"
    and "extract_contour self lib msk = Inr cp" and "length cp < 3"
  shows "generate_variant self ops lib letter variant w =
           (w\<lparr>console := console w @
               [LogCreating (fst variant) (thickness (snd variant)), LogWarning letter, LogFailed]\<rparr>,
            None)"
  by (cases variant) (simp add: generate_variant_def try_body_def short_create [OF assms])

lemma short_loop:
  assumes "rasterise self lib letter = Inr msk"
    and "extract_contour self lib msk = Inr cp" and "length cp < 3"
  shows "generate_loop self ops lib letter variants w =
           (w\<lparr>console := console w @
               concat (map (\<lambda>v. [LogCreating (fst v) (thickness (snd v)), LogWarning letter,
                                  LogFailed]) variants)\<rparr>,
            None)"
proof (induction variants arbitrary: w)
  case Nil
  show ?case by simp
next
  case (Cons variant rest)
  show ?case by (simp add: short_variant [OF assms] Cons.IH)
qed

text \<open>
  C6. When the tracer finds no curve the extractor returns the empty list. Whenever the
  extracted contour has fewer than 3 points, \<open>create_letter_mesh\<close> logs a warning and
  returns \<open>None\<close>, the loop prints the failure and goes on with the next variant, and
  \<open>generate_letter_variants\<close> ends without an exception and without a file, having
  skipped every variant of the letter.
\<close>

theorem short_contour_skipped:
  "(find_contours lib msk = Inr [] \<longrightarrow> extract_contour self lib msk = Inr [])
   \<and> (rasterise self lib letter = Inr msk
        \<and> extract_contour self lib msk = Inr contour_points
        \<and> length contour_points < 3 \<longrightarrow>
      create_letter_mesh self ops lib letter thick w =
        (w\<lparr>console := console w @ [LogWarning letter]\<rparr>, Inr None)
      \<and> generate_loop self ops lib letter (variant # rest) w =
          generate_loop self ops lib letter rest
            (w\<lparr>console := console w @
               [LogCreating (fst variant) (thickness (snd variant)), LogWarning letter,
                LogFailed]\<rparr>)
      \<and> generate_letter_variants self ops lib letter w =
          (w\<lparr>console := console w @ LogProcessing letter #
               concat (map (\<lambda>v. [LogCreating (fst v) (thickness (snd v)), LogWarning letter,
                                  LogFailed]) VARIANTS)\<rparr>,
           None))"
proof (intro conjI impI)
  assume "find_contours lib msk = Inr []"
  then show "extract_contour self lib msk = Inr []" by (simp add: extract_contour_def)
next
  assume a: "rasterise self lib letter = Inr msk
        \<and> extract_contour self lib msk = Inr contour_points
        \<and> length contour_points < 3"
  then have r: "rasterise self lib letter = Inr msk"
    and e: "extract_contour self lib msk = Inr contour_points"
    and s: "length contour_points < 3" by simp_all
  show "create_letter_mesh self ops lib letter thick w =
        (w\<lparr>console := console w @ [LogWarning letter]\<rparr>, Inr None)"
    by (rule short_create [OF r e s])
  show "generate_loop self ops lib letter (variant # rest) w =
          generate_loop self ops lib letter rest
            (w\<lparr>console := console w @
               [LogCreating (fst variant) (thickness (snd variant)), LogWarning letter,
                LogFailed]\<rparr>)"
    by (simp add: short_variant [OF r e s])
  show "generate_letter_variants self ops lib letter w =
          (w\<lparr>console := console w @ LogProcessing letter #
               concat (map (\<lambda>v. [LogCreating (fst v) (thickness (snd v)), LogWarning letter,
                                  LogFailed]) VARIANTS)\<rparr>,
           None)"
    by (simp add: generate_letter_variants_def short_loop [OF r e s])
qed

theorem short_contour_skipped_witness:
  "find_contours (test_lib [] (\<lambda>p. None)) [] = Inr []
   \<and> extract_contour gen0 (test_lib [] (\<lambda>p. None)) [] = Inr []
   \<and> extract_contour gen0 (test_lib [short_contour] (\<lambda>p. None)) [] = Inr short_contour
   \<and> length short_contour < 3
   \<and> generate_letter_variants gen0 exact_ops (test_lib [short_contour] (\<lambda>p. None)) ''A'' world0 =
       (\<lparr>dirs = {}, files = [],
         console =
           [LogProcessing ''A'',
            LogCreating ''pin'' (7 / 2), LogWarning ''A'', LogFailed,
            LogCreating ''magnet'' (9 / 2), LogWarning ''A'', LogFailed,
            LogCreating ''keyring'' (11 / 2), LogWarning ''A'', LogFailed,
            LogCreating ''cake_mould'' 10, LogWarning ''A'', LogFailed]\<rparr>,
        None)"
proof -
  have f: "find_contours (test_lib [] (\<lambda>p. None)) [] = Inr []"
    by (simp add: test_lib_def)
  have e0: "extract_contour gen0 (test_lib [] (\<lambda>p. None)) [] = Inr []"
    using short_contour_skipped [where lib = "test_lib [] (\<lambda>p. None)" and msk = "[]"
        and self = gen0] f by blast
  have r: "rasterise gen0 (test_lib [short_contour] (\<lambda>p. None)) ''A'' = Inr []"
    by (simp add: rasterise_def choose_font_def font_options_def test_lib_def)
  have e: "extract_contour gen0 (test_lib [short_contour] (\<lambda>p. None)) [] = Inr short_contour"
    by (simp add: extract_contour_def test_lib_def simplify_def short_contour_def)
  have s: "length short_contour < 3" by (simp add: short_contour_def)
  have "generate_letter_variants gen0 exact_ops (test_lib [short_contour] (\<lambda>p. None)) ''A'' world0 =
      (world0\<lparr>console := console world0 @ LogProcessing ''A'' #
               concat (map (\<lambda>v. [LogCreating (fst v) (thickness (snd v)), LogWarning ''A'',
                                  LogFailed]) VARIANTS)\<rparr>,
           None)"
    using short_contour_skipped [where lib = "test_lib [short_contour] (\<lambda>p. None)"
        and msk = "[]" and self = gen0 and letter = "''A''" and contour_points = short_contour
        and ops = exact_ops and w = world0] r e s by blast
  then show ?thesis using f e0 e s by (simp add: world0_def VARIANTS_def)
qed

section \<open>Exceptions in the loop\<close>

lemma caught_in_loop:
  assumes "try_body self ops lib letter variant
             (w\<lparr>console := console w @ [LogCreating (fst variant) (thickness (snd variant))]\<rparr>) =
           (w1, Some (Exc msg))"
  shows "generate_loop self ops lib letter (variant # rest) w =
           generate_loop self ops lib letter rest
             (w1\<lparr>console := console w1 @ [LogError (Exc msg), LogTraceback (Exc msg)]\<rparr>)"
  by (simp add: generate_variant_def assms handler_Exc)

lemma leaves_loop:
  assumes "try_body self ops lib letter variant
             (w\<lparr>console := console w @ [LogCreating (fst variant) (thickness (snd variant))]\<rparr>) =
           (w1, Some (BaseExc msg))"
  shows "generate_loop self ops lib letter (variant # rest) w = (w1, Some (BaseExc msg))"
  by (simp add: generate_variant_def assms handler_BaseExc)

lemma font_selection_error:
  "choose_font lib fsize = Inl e \<Longrightarrow> load_default lib = Some e"
  by (auto simp: choose_font_def split: option.splits py_exn.splits)

lemma font_loop_swallows:
  "truetype lib font_path fsize = Some e \<Longrightarrow>
   load_font lib fsize (font_path # rest) = load_font lib fsize rest"
  by simp

text \<open>
  C7 (as amended). An exception that is an instance of \<open>Exception\<close>, raised while the
  mesh of one (letter, variant) pair is built or exported, is caught in the loop, logged
  together with its traceback, and the loop goes on with the next variant; no such
  exception leaves \<open>generate_letter_variants\<close>, and when none leaves it every variant
  has been started. The files written so far stay: the files at the end are those at the
  start, followed by new ones. An exception that is not an instance of \<open>Exception\<close>
  (\<open>KeyboardInterrupt\<close>, \<open>SystemExit\<close>) is treated in two ways. Raised while a
  candidate font is loaded it is swallowed by the bare \<open>except\<close> of the font loop, and
  the next candidate is tried: whatever leaves the font selection was raised by
  \<open>load_default\<close>. Leaving mesh construction, or raised by the export, it is not
  caught by \<open>except Exception\<close>: the loop ends there with this exception, in the state
  reached, and the remaining variants are not processed.
\<close>

theorem exception_isolation:
  "(\<forall>msg. snd (generate_letter_variants self ops lib letter w) \<noteq> Some (Exc msg))
   \<and> (\<forall>w1 msg.
         create_letter_mesh self ops lib letter (f_lit ops (thickness specs))
           (w\<lparr>console := console w @ [LogCreating v (thickness specs)]\<rparr>) = (w1, Inl (Exc msg)) \<longrightarrow>
         generate_loop self ops lib letter ((v, specs) # rest) w =
           generate_loop self ops lib letter rest
             (w1\<lparr>console := console w1 @ [LogError (Exc msg), LogTraceback (Exc msg)]\<rparr>))
   \<and> (\<forall>w1 m msg.
         create_letter_mesh self ops lib letter (f_lit ops (thickness specs))
           (w\<lparr>console := console w @ [LogCreating v (thickness specs)]\<rparr>) = (w1, Inr (Some m))
         \<and> export lib m (path_str (output_file self letter v)) = Some (Exc msg) \<longrightarrow>
         generate_loop self ops lib letter ((v, specs) # rest) w =
           generate_loop self ops lib letter rest
             (w1\<lparr>console := console w1 @ [LogError (Exc msg), LogTraceback (Exc msg)]\<rparr>))
   \<and> (snd (generate_letter_variants self ops lib letter w) = None \<longrightarrow>
        started (console (fst (generate_letter_variants self ops lib letter w))) =
          started (console w) @ map fst VARIANTS)
   \<and> (\<exists>new. files (fst (generate_letter_variants self ops lib letter w)) = files w @ new)
   \<and> (\<forall>e. truetype lib font_path fsize = Some e \<longrightarrow>
         load_font lib fsize (font_path # others) = load_font lib fsize others)
   \<and> (\<forall>w1 msg.
         create_letter_mesh self ops lib letter (f_lit ops (thickness specs))
           (w\<lparr>console := console w @ [LogCreating v (thickness specs)]\<rparr>) =
           (w1, Inl (BaseExc msg)) \<longrightarrow>
         generate_loop self ops lib letter ((v, specs) # rest) w = (w1, Some (BaseExc msg)))
   \<and> (\<forall>w1 m msg.
         create_letter_mesh self ops lib letter (f_lit ops (thickness specs))
           (w\<lparr>console := console w @ [LogCreating v (thickness specs)]\<rparr>) = (w1, Inr (Some m))
         \<and> export lib m (path_str (output_file self letter v)) = Some (BaseExc msg) \<longrightarrow>
         generate_loop self ops lib letter ((v, specs) # rest) w = (w1, Some (BaseExc msg)))
   \<and> (\<forall>w1 msg.
         try_body self ops lib letter (v, specs)
           (w\<lparr>console := console w @ [LogCreating v (thickness specs)]\<rparr>) =
           (w1, Some (BaseExc msg)) \<longrightarrow>
         generate_loop self ops lib letter ((v, specs) # rest) w = (w1, Some (BaseExc msg)))
   \<and> (\<forall>e. choose_font lib fsize = Inl e \<longrightarrow> load_default lib = Some e)"
proof (intro conjI allI impI)
  fix msg
  show "snd (generate_letter_variants self ops lib letter w) \<noteq> Some (Exc msg)"
    by (simp add: generate_letter_variants_def generate_loop_result)
next
  fix w1 msg
  assume "create_letter_mesh self ops lib letter (f_lit ops (thickness specs))
           (w\<lparr>console := console w @ [LogCreating v (thickness specs)]\<rparr>) = (w1, Inl (Exc msg))"
  then have "try_body self ops lib letter (v, specs)
             (w\<lparr>console := console w @ [LogCreating v (thickness specs)]\<rparr>) = (w1, Some (Exc msg))"
    by (simp add: try_body_def)
  then show "generate_loop self ops lib letter ((v, specs) # rest) w =
           generate_loop self ops lib letter rest
             (w1\<lparr>console := console w1 @ [LogError (Exc msg), LogTraceback (Exc msg)]\<rparr>)"
    using caught_in_loop [of self ops lib letter "(v, specs)" w w1 msg rest] by simp
next
  fix w1 m msg
  assume "create_letter_mesh self ops lib letter (f_lit ops (thickness specs))
           (w\<lparr>console := console w @ [LogCreating v (thickness specs)]\<rparr>) = (w1, Inr (Some m))
         \<and> export lib m (path_str (output_file self letter v)) = Some (Exc msg)"
  then have "try_body self ops lib letter (v, specs)
             (w\<lparr>console := console w @ [LogCreating v (thickness specs)]\<rparr>) = (w1, Some (Exc msg))"
    by (simp add: try_body_def)
  then show "generate_loop self ops lib letter ((v, specs) # rest) w =
           generate_loop self ops lib letter rest
             (w1\<lparr>console := console w1 @ [LogError (Exc msg), LogTraceback (Exc msg)]\<rparr>)"
    using caught_in_loop [of self ops lib letter "(v, specs)" w w1 msg rest] by simp
next
  assume "snd (generate_letter_variants self ops lib letter w) = None"
  then show "started (console (fst (generate_letter_variants self ops lib letter w))) =
          started (console w) @ map fst VARIANTS"
    using generate_loop_started [of self ops lib letter VARIANTS
        "w\<lparr>console := console w @ [LogProcessing letter]\<rparr>"]
    by (simp add: generate_letter_variants_def started_append)
next
  show "\<exists>new. files (fst (generate_letter_variants self ops lib letter w)) = files w @ new"
    using generate_loop_files [of self ops lib letter VARIANTS
        "w\<lparr>console := console w @ [LogProcessing letter]\<rparr>"]
    by (auto simp: generate_letter_variants_def)
next
  fix e
  assume "truetype lib font_path fsize = Some e"
  then show "load_font lib fsize (font_path # others) = load_font lib fsize others"
    by (rule font_loop_swallows)
next
  fix w1 msg
  assume "create_letter_mesh self ops lib letter (f_lit ops (thickness specs))
           (w\<lparr>console := console w @ [LogCreating v (thickness specs)]\<rparr>) =
           (w1, Inl (BaseExc msg))"
  then have "try_body self ops lib letter (v, specs)
             (w\<lparr>console := console w @ [LogCreating v (thickness specs)]\<rparr>) =
             (w1, Some (BaseExc msg))"
    by (simp add: try_body_def)
  then show "generate_loop self ops lib letter ((v, specs) # rest) w = (w1, Some (BaseExc msg))"
    using leaves_loop [of self ops lib letter "(v, specs)" w w1 msg rest] by simp
next
  fix w1 m msg
  assume "create_letter_mesh self ops lib letter (f_lit ops (thickness specs))
           (w\<lparr>console := console w @ [LogCreating v (thickness specs)]\<rparr>) = (w1, Inr (Some m))
         \<and> export lib m (path_str (output_file self letter v)) = Some (BaseExc msg)"
  then have "try_body self ops lib letter (v, specs)
             (w\<lparr>console := console w @ [LogCreating v (thickness specs)]\<rparr>) =
             (w1, Some (BaseExc msg))"
    by (simp add: try_body_def)
  then show "generate_loop self ops lib letter ((v, specs) # rest) w = (w1, Some (BaseExc msg))"
    using leaves_loop [of self ops lib letter "(v, specs)" w w1 msg rest] by simp
next
  fix w1 msg
  assume "try_body self ops lib letter (v, specs)
           (w\<lparr>console := console w @ [LogCreating v (thickness specs)]\<rparr>) =
           (w1, Some (BaseExc msg))"
  then show "generate_loop self ops lib letter ((v, specs) # rest) w = (w1, Some (BaseExc msg))"
    using leaves_loop [of self ops lib letter "(v, specs)" w w1 msg rest] by simp
next
  fix e
  assume "choose_font lib fsize = Inl e"
  then show "load_default lib = Some e"
    by (rule font_selection_error)
qed

lemma run_export_error:
  "generate_letter_variants gen0 exact_ops
     (test_lib [square]
        (export_fails_for (path_str (output_file gen0 ''A'' ''magnet'')) (Exc ''OSError'')))
     ''A'' world0 =
   (\<lparr>dirs = {},
     files =
       [''Centria_3D_Models/Letters_Library/pin/Letter_A_pin.stl'',
        ''Centria_3D_Models/Letters_Library/keyring/Letter_A_keyring.stl'',
        ''Centria_3D_Models/Letters_Library/cake_mould/Letter_A_cake_mould.stl''],
     console =
       [LogProcessing ''A'', LogCreating ''pin'' (7 / 2), LogOk 1 8,
        LogCreating ''magnet'' (9 / 2), LogError (Exc ''OSError''),
        LogTraceback (Exc ''OSError''), LogCreating ''keyring'' (11 / 2),
        LogOk 1 8, LogCreating ''cake_mould'' 10, LogOk 1 8]\<rparr>,
    None)"
  by code_simp

lemma run_keyboard_interrupt:
  "generate_letter_variants gen0 exact_ops
     (test_lib [square] (\<lambda>p. Some (BaseExc ''KeyboardInterrupt''))) ''A'' world0 =
   (\<lparr>dirs = {}, files = [], console = [LogProcessing ''A'', LogCreating ''pin'' (7 / 2)]\<rparr>,
    Some (BaseExc ''KeyboardInterrupt''))"
  by code_simp

lemma run_all_ok:
  "generate_letter_variants gen0 exact_ops (test_lib [square] (\<lambda>p. None)) ''A''
     (snd (init_default world0)) =
   (\<lparr>dirs =
       {''Centria_3D_Models/Letters_Library/cake_mould'',
        ''Centria_3D_Models/Letters_Library/keyring'',
        ''Centria_3D_Models/Letters_Library/magnet'',
        ''Centria_3D_Models/Letters_Library/pin'',
        ''Centria_3D_Models/Letters_Library'',
        ''Centria_3D_Models''},
     files =
       [''Centria_3D_Models/Letters_Library/pin/Letter_A_pin.stl'',
        ''Centria_3D_Models/Letters_Library/magnet/Letter_A_magnet.stl'',
        ''Centria_3D_Models/Letters_Library/keyring/Letter_A_keyring.stl'',
        ''Centria_3D_Models/Letters_Library/cake_mould/Letter_A_cake_mould.stl''],
     console =
       [LogProcessing ''A'', LogCreating ''pin'' (7 / 2), LogOk 1 8,
        LogCreating ''magnet'' (9 / 2), LogOk 1 8,
        LogCreating ''keyring'' (11 / 2), LogOk 1 8,
        LogCreating ''cake_mould'' 10, LogOk 1 8]\<rparr>,
    None)"
  by code_simp

lemma run_font_interrupt:
  "choose_font ((test_lib [square] (\<lambda>p. None))\<lparr>truetype := interrupted_font\<rparr>) 200 =
     Inr (TrueType ''Arial Bold.ttf'' 200)
   \<and> snd (generate_letter_variants gen0 exact_ops
       ((test_lib [square] (\<lambda>p. None))\<lparr>truetype := interrupted_font\<rparr>) ''A'' world0) = None"
  by code_simp

lemma mesh_before_interrupt:
  "create_letter_mesh gen0 exact_ops (test_lib [square] (\<lambda>p. Some (BaseExc ''KeyboardInterrupt'')))
     ''A'' (f_lit exact_ops (thickness \<lparr>thickness = 7 / 2, description = ''Pin with mounting post''\<rparr>))
     (world0\<lparr>console := console world0 @
        [LogCreating ''pin'' (thickness \<lparr>thickness = 7 / 2, description = ''Pin with mounting post''\<rparr>)]\<rparr>) =
   (\<lparr>dirs = {}, files = [], console = [LogCreating ''pin'' (7 / 2)]\<rparr>,
    Inr (Some (extrude_arrays gen0 exact_ops square (7 / 2))))"
  by code_simp

theorem exception_isolation_witness:
  "snd (generate_letter_variants gen0 exact_ops
     (test_lib [square]
        (export_fails_for (path_str (output_file gen0 ''A'' ''magnet'')) (Exc ''OSError'')))
     ''A'' world0) = None
   \<and> started (console (fst (generate_letter_variants gen0 exact_ops
     (test_lib [square]
        (export_fails_for (path_str (output_file gen0 ''A'' ''magnet'')) (Exc ''OSError'')))
     ''A'' world0))) = [''pin'', ''magnet'', ''keyring'', ''cake_mould'']
   \<and> files (fst (generate_letter_variants gen0 exact_ops
     (test_lib [square]
        (export_fails_for (path_str (output_file gen0 ''A'' ''magnet'')) (Exc ''OSError'')))
     ''A'' world0)) =
       [''Centria_3D_Models/Letters_Library/pin/Letter_A_pin.stl'',
        ''Centria_3D_Models/Letters_Library/keyring/Letter_A_keyring.stl'',
        ''Centria_3D_Models/Letters_Library/cake_mould/Letter_A_cake_mould.stl'']
   \<and> truetype ((test_lib [square] (\<lambda>p. None))\<lparr>truetype := interrupted_font\<rparr>) ''arial.ttf'' 200 =
       Some (BaseExc ''KeyboardInterrupt'')
   \<and> load_font ((test_lib [square] (\<lambda>p. None))\<lparr>truetype := interrupted_font\<rparr>) 200
       font_options = Some (TrueType ''Arial Bold.ttf'' 200)
   \<and> snd (generate_letter_variants gen0 exact_ops
       ((test_lib [square] (\<lambda>p. None))\<lparr>truetype := interrupted_font\<rparr>) ''A'' world0) = None
   \<and> export (test_lib [square] (\<lambda>p. Some (BaseExc ''KeyboardInterrupt'')))
       (extrude_arrays gen0 exact_ops square (7 / 2)) (path_str (output_file gen0 ''A'' ''pin'')) =
       Some (BaseExc ''KeyboardInterrupt'')
   \<and> generate_loop gen0 exact_ops (test_lib [square] (\<lambda>p. Some (BaseExc ''KeyboardInterrupt'')))
       ''A'' VARIANTS world0 =
       (\<lparr>dirs = {}, files = [], console = [LogCreating ''pin'' (7 / 2)]\<rparr>,
        Some (BaseExc ''KeyboardInterrupt''))"
proof -
  let ?lib = "test_lib [square]
     (export_fails_for (path_str (output_file gen0 ''A'' ''magnet'')) (Exc ''OSError''))"
  let ?lib3 = "test_lib [square] (\<lambda>p. Some (BaseExc ''KeyboardInterrupt''))"
  let ?specs = "\<lparr>thickness = 7 / 2, description = ''Pin with mounting post''\<rparr>"
  let ?run = "generate_letter_variants gen0 exact_ops ?lib ''A'' world0"
  let ?lib2 = "(test_lib [square] (\<lambda>p. None))\<lparr>truetype := interrupted_font\<rparr>"
  have n: "snd ?run = None" by (simp add: run_export_error)
  have "started (console (fst ?run)) = started (console world0) @ map fst VARIANTS"
    using exception_isolation [where self = gen0 and ops = exact_ops and letter = "''A''"
        and w = world0 and lib = ?lib] n
    by blast
  then have s: "started (console (fst ?run)) = [''pin'', ''magnet'', ''keyring'', ''cake_mould'']"
    by (simp add: world0_def VARIANTS_def)
  have t: "truetype ?lib2 ''arial.ttf'' 200 = Some (BaseExc ''KeyboardInterrupt'')"
    by (simp add: interrupted_font_def)
  have "load_font ?lib2 200 (''arial.ttf'' # tl font_options) = load_font ?lib2 200 (tl font_options)"
    using exception_isolation [where lib = ?lib2 and font_path = "''arial.ttf''" and fsize = 200
        and others = "tl font_options" and self = gen0 and ops = exact_ops and letter = "''A''"
        and w = world0] t
    by blast
  then have f: "load_font ?lib2 200 font_options = Some (TrueType ''Arial Bold.ttf'' 200)"
    by (simp add: font_options_def interrupted_font_def)
  have e: "export ?lib3 (extrude_arrays gen0 exact_ops square (7 / 2))
      (path_str (output_file gen0 ''A'' ''pin'')) = Some (BaseExc ''KeyboardInterrupt'')"
    by (simp add: test_lib_def)
  have "generate_loop gen0 exact_ops ?lib3 ''A'' ((''pin'', ?specs) # tl VARIANTS) world0 =
     (\<lparr>dirs = {}, files = [], console = [LogCreating ''pin'' (7 / 2)]\<rparr>,
      Some (BaseExc ''KeyboardInterrupt''))"
    using exception_isolation [where self = gen0 and ops = exact_ops and lib = ?lib3
        and letter = "''A''" and v = "''pin''" and specs = ?specs and rest = "tl VARIANTS"
        and w = world0] mesh_before_interrupt e
    by blast
  moreover have "(''pin'', ?specs) # tl VARIANTS = VARIANTS" by (simp add: VARIANTS_def)
  ultimately have k: "generate_loop gen0 exact_ops ?lib3 ''A'' VARIANTS world0 =
     (\<lparr>dirs = {}, files = [], console = [LogCreating ''pin'' (7 / 2)]\<rparr>,
      Some (BaseExc ''KeyboardInterrupt''))"
    by (simp only:)
  have six: "snd ?run = None
      \<and> started (console (fst ?run)) = [''pin'', ''magnet'', ''keyring'', ''cake_mould'']
      \<and> files (fst ?run) =
       [''Centria_3D_Models/Letters_Library/pin/Letter_A_pin.stl'',
        ''Centria_3D_Models/Letters_Library/keyring/Letter_A_keyring.stl'',
        ''Centria_3D_Models/Letters_Library/cake_mould/Letter_A_cake_mould.stl'']
      \<and> truetype ?lib2 ''arial.ttf'' 200 = Some (BaseExc ''KeyboardInterrupt'')
      \<and> load_font ?lib2 200 font_options = Some (TrueType ''Arial Bold.ttf'' 200)
      \<and> snd (generate_letter_variants gen0 exact_ops ?lib2 ''A'' world0) = None"
    using n s t f by (simp add: run_export_error run_font_interrupt)
  show ?thesis using six e k by (intro conjI) (elim conjE, assumption)+
qed

text \<open>
  The claim as stated (any exception) fails for \<open>KeyboardInterrupt\<close> raised by the
  export of the first variant: it leaves \<open>generate_letter_variants\<close>, and only the
  first variant has been started.
\<close>

theorem exception_propagates_counterexample:
  "snd (generate_letter_variants gen0 exact_ops
     (test_lib [square] (\<lambda>p. Some (BaseExc ''KeyboardInterrupt''))) ''A'' world0) =
     Some (BaseExc ''KeyboardInterrupt'')
   \<and> started (console (fst (generate_letter_variants gen0 exact_ops
     (test_lib [square] (\<lambda>p. Some (BaseExc ''KeyboardInterrupt''))) ''A'' world0))) = [''pin'']"
  by (simp add: run_keyboard_interrupt)

section \<open>Output paths\<close>

lemma split_on_no_separator: "c \<notin> set s \<Longrightarrow> split_on c s = [s]"
  by (induction s) auto

lemma FilePath_name:
  assumes "CHR ''/'' \<notin> set s" and "s \<noteq> []" and "s \<noteq> ''.''"
  shows "FilePath s = \<lparr>p_root = [], p_parts = [s]\<rparr>"
proof -
  obtain x xs where s: "s = x # xs" using assms(2) by (cases s) auto
  have x: "x \<noteq> CHR ''/''" using assms(1) s by auto
  have r: "take 1 s \<noteq> ''/''" "take 2 s \<noteq> ''//''"
    using x s by (auto simp: take_Suc_conv_app_nth numeral_2_eq_2)
  show ?thesis
    using assms r by (simp add: FilePath_def split_on_no_separator)
qed

lemma joinpath_name:
  assumes "CHR ''/'' \<notin> set s" and "s \<noteq> []" and "s \<noteq> ''.''"
  shows "joinpath p s = p\<lparr>p_parts := p_parts p @ [s]\<rparr>"
  by (simp add: joinpath_def FilePath_name [OF assms])

lemma variant_names:
  "v \<in> fst ` set VARIANTS \<Longrightarrow> CHR ''/'' \<notin> set v \<and> v \<noteq> [] \<and> v \<noteq> ''.''"
  by (auto simp: VARIANTS_def)

lemma alphabet_no_separator:
  "letter \<in> set FULL_ALPHABET \<union> set CENTRIA_LETTERS \<Longrightarrow> CHR ''/'' \<notin> set letter"
  by (auto simp: FULL_ALPHABET_def CENTRIA_LETTERS_def)

lemma output_file_parts:
  assumes "CHR ''/'' \<notin> set letter" and "v \<in> fst ` set VARIANTS"
  shows "output_file self letter v =
     (output_dir self)\<lparr>p_parts := p_parts (output_dir self) @
        [v, ''Letter_'' @ letter @ ''_'' @ v @ ''.stl'']\<rparr>"
proof -
  have v: "CHR ''/'' \<notin> set v" "v \<noteq> []" "v \<noteq> ''.''"
    using variant_names [OF assms(2)] by simp_all
  have n: "CHR ''/'' \<notin> set (''Letter_'' @ letter @ ''_'' @ v @ ''.stl'')"
    "''Letter_'' @ letter @ ''_'' @ v @ ''.stl'' \<noteq> []"
    "''Letter_'' @ letter @ ''_'' @ v @ ''.stl'' \<noteq> ''.''"
    using assms(1) v(1) by simp_all
  have "output_file self letter v =
      joinpath (joinpath (output_dir self) v) (''Letter_'' @ letter @ ''_'' @ v @ ''.stl'')"
    by (simp only: output_file_def)
  also have "\<dots> = (output_dir self)\<lparr>p_parts := p_parts (output_dir self) @ [v]\<rparr>
      \<lparr>p_parts := p_parts ((output_dir self)\<lparr>p_parts := p_parts (output_dir self) @ [v]\<rparr>) @
         [''Letter_'' @ letter @ ''_'' @ v @ ''.stl'']\<rparr>"
    by (simp only: joinpath_name [OF v] joinpath_name [OF n])
  finally show ?thesis by simp
qed

lemma join_slash_append:
  "ps \<noteq> [] \<Longrightarrow> join_slash (ps @ [a, b]) = join_slash ps @ ''/'' @ a @ ''/'' @ b"
  by (induction ps rule: join_slash.induct) simp_all

lemma path_str_appended:
  "path_str (p\<lparr>p_parts := p_parts p @ [a, b]\<rparr>) =
     (if p_parts p = [] then p_root p @ a @ ''/'' @ b else path_str p @ ''/'' @ a @ ''/'' @ b)"
  by (simp add: path_str_def join_slash_append)

lemma mkdir_dirs: "dirs (mkdir d w) = insert (path_str d) (dirs w)"
  by (simp add: mkdir_def)

lemma fold_mkdir_dirs:
  "dirs (fold (\<lambda>x. mkdir (g x)) xs w) = dirs w \<union> (\<lambda>x. path_str (g x)) ` set xs"
  by (induction xs arbitrary: w) (auto simp: mkdir_dirs)

lemma init_dirs:
  "path_str (FilePath out_dir) \<in> dirs (snd (init out_dir fsize w))
   \<and> (\<forall>v \<in> fst ` set VARIANTS.
         path_str (joinpath (FilePath out_dir) v) \<in> dirs (snd (init out_dir fsize w)))"
  by (simp add: init_def fold_mkdir_dirs mkdir_parents_def mkdir_dirs)

lemma export_ok_files:
  assumes "create_letter_mesh self ops lib letter (f_lit ops (thickness specs)) w = (w1, Inr (Some m))"
    and "export lib m (path_str (output_file self letter v)) = None"
  shows "files (fst (try_body self ops lib letter (v, specs) w)) =
           files w @ [path_str (output_file self letter v)]"
proof -
  have "files w1 = files w"
    using create_letter_mesh_files [of self ops lib letter "f_lit ops (thickness specs)" w] assms(1)
    by simp
  then show ?thesis
    using assms by (simp add: try_body_def Let_def split: sum.splits)
qed

lemma default_output_dir:
  "output_dir (fst (init_default w)) =
     \<lparr>p_root = [], p_parts = [''Centria_3D_Models'', ''Letters_Library'']\<rparr>"
  by (simp add: init_default_def init_def FilePath_def)

text \<open>
  C8. For a letter without a path separator (every letter of the processed sets is a
  single character) and a variant \<open>v\<close> of \<open>VARIANTS\<close>, the path a successful
  export writes is the output directory followed by the two components \<open>v\<close> and
  \<open>Letter_<letter>_<v>.stl\<close>. Rendered as a string it is
  \<open><output_dir>/<v>/Letter_<letter>_<v>.stl\<close>, where \<open><output_dir>\<close> is the
  string of the output directory as \<open>pathlib\<close> holds it (without a trailing or
  repeated separator and without \<open>.\<close> components); when the output directory has no
  component at all (the current directory, or a root) the string is the root, if any,
  followed by \<open><v>/Letter_<letter>_<v>.stl\<close>. The output directory is the path of
  the constructor's argument, by default \<open>Centria_3D_Models/Letters_Library\<close>; the
  constructor creates one subdirectory per variant name; a successful export adds
  exactly that path to the files written, and every file
  \<open>generate_letter_variants\<close> writes is such a path of one of the variants. Letter A
  in variant pin goes to \<open>Centria_3D_Models/Letters_Library/pin/Letter_A_pin.stl\<close>.
\<close>

theorem output_path_pattern:
  assumes "CHR ''/'' \<notin> set letter" and "v \<in> fst ` set VARIANTS"
  shows "output_file self letter v =
           (output_dir self)\<lparr>p_parts := p_parts (output_dir self) @
              [v, ''Letter_'' @ letter @ ''_'' @ v @ ''.stl'']\<rparr>
       \<and> (p_parts (output_dir self) \<noteq> [] \<longrightarrow>
            path_str (output_file self letter v) =
              path_str (output_dir self) @ ''/'' @ v @ ''/'' @
              ''Letter_'' @ letter @ ''_'' @ v @ ''.stl'')
       \<and> (p_parts (output_dir self) = [] \<longrightarrow>
            path_str (output_file self letter v) =
              p_root (output_dir self) @ v @ ''/'' @ ''Letter_'' @ letter @ ''_'' @ v @ ''.stl'')
       \<and> output_dir (fst (init out_dir fsize w)) = FilePath out_dir
       \<and> path_str (output_dir (fst (init_default w))) = ''Centria_3D_Models/Letters_Library''
       \<and> path_str (joinpath (FilePath out_dir) v) \<in> dirs (snd (init out_dir fsize w))
       \<and> (\<forall>w1 m.
             create_letter_mesh self ops lib letter (f_lit ops (thickness specs)) w =
               (w1, Inr (Some m))
             \<and> export lib m (path_str (output_file self letter v)) = None \<longrightarrow>
             files (fst (try_body self ops lib letter (v, specs) w)) =
               files w @ [path_str (output_file self letter v)])
       \<and> (\<exists>new. files (fst (generate_letter_variants self ops lib letter w)) = files w @ new
             \<and> set new \<subseteq> (\<lambda>name. path_str (output_file self letter name)) ` fst ` set VARIANTS)
       \<and> path_str (output_file (fst (init_default w)) ''A'' ''pin'') =
           ''Centria_3D_Models/Letters_Library/pin/Letter_A_pin.stl''"
proof (intro conjI impI)
  show parts: "output_file self letter v =
           (output_dir self)\<lparr>p_parts := p_parts (output_dir self) @
              [v, ''Letter_'' @ letter @ ''_'' @ v @ ''.stl'']\<rparr>"
    by (rule output_file_parts [OF assms])
  show "output_dir (fst (init out_dir fsize w)) = FilePath out_dir"
    by (simp add: init_def)
  show "path_str (output_dir (fst (init_default w))) = ''Centria_3D_Models/Letters_Library''"
    by (simp add: default_output_dir path_str_def)
  show "path_str (joinpath (FilePath out_dir) v) \<in> dirs (snd (init out_dir fsize w))"
    using init_dirs [of out_dir fsize w] assms(2) by blast
  show "\<forall>w1 m.
             create_letter_mesh self ops lib letter (f_lit ops (thickness specs)) w =
               (w1, Inr (Some m))
             \<and> export lib m (path_str (output_file self letter v)) = None \<longrightarrow>
             files (fst (try_body self ops lib letter (v, specs) w)) =
               files w @ [path_str (output_file self letter v)]"
    using export_ok_files [of self ops lib letter specs w _ _ v] by blast
  show "\<exists>new. files (fst (generate_letter_variants self ops lib letter w)) = files w @ new
             \<and> set new \<subseteq> (\<lambda>name. path_str (output_file self letter name)) ` fst ` set VARIANTS"
    using generate_loop_files [of self ops lib letter VARIANTS
        "w\<lparr>console := console w @ [LogProcessing letter]\<rparr>"]
    by (simp add: generate_letter_variants_def)
  show "path_str (output_file (fst (init_default w)) ''A'' ''pin'') =
           ''Centria_3D_Models/Letters_Library/pin/Letter_A_pin.stl''"
    by (simp add: output_file_def joinpath_def FilePath_def default_output_dir path_str_def)
next
  assume "p_parts (output_dir self) \<noteq> []"
  then show "path_str (output_file self letter v) =
              path_str (output_dir self) @ ''/'' @ v @ ''/'' @
              ''Letter_'' @ letter @ ''_'' @ v @ ''.stl''"
    by (simp only: output_file_parts [OF assms] path_str_appended if_False)
next
  assume "p_parts (output_dir self) = []"
  then show "path_str (output_file self letter v) =
              p_root (output_dir self) @ v @ ''/'' @ ''Letter_'' @ letter @ ''_'' @ v @ ''.stl''"
    by (simp add: output_file_parts [OF assms] path_str_def)
qed

lemma normalised_examples:
  "path_str (output_file (fst (init ''out/'' 200 world0)) ''A'' ''pin'') = ''out/pin/Letter_A_pin.stl''
   \<and> path_str (output_file (fst (init [] 200 world0)) ''A'' ''pin'') = ''pin/Letter_A_pin.stl''
   \<and> path_str (output_file (fst (init ''./a//b/'' 200 world0)) ''A'' ''pin'') =
       ''a/b/pin/Letter_A_pin.stl''"
  by code_simp

theorem output_path_pattern_witness:
  "CHR ''/'' \<notin> set ''A'' \<and> ''pin'' \<in> fst ` set VARIANTS
   \<and> ''Centria_3D_Models/Letters_Library/pin'' \<in> dirs (snd (init_default world0))
   \<and> path_str (output_file gen0 ''A'' ''pin'') =
       ''Centria_3D_Models/Letters_Library/pin/Letter_A_pin.stl''
   \<and> path_str (output_file (fst (init ''out/'' 200 world0)) ''A'' ''pin'') =
       ''out/pin/Letter_A_pin.stl''
   \<and> path_str (output_file (fst (init [] 200 world0)) ''A'' ''pin'') = ''pin/Letter_A_pin.stl''
   \<and> files (fst (generate_letter_variants gen0 exact_ops (test_lib [square] (\<lambda>p. None)) ''A''
        (snd (init_default world0)))) =
       [''Centria_3D_Models/Letters_Library/pin/Letter_A_pin.stl'',
        ''Centria_3D_Models/Letters_Library/magnet/Letter_A_magnet.stl'',
        ''Centria_3D_Models/Letters_Library/keyring/Letter_A_keyring.stl'',
        ''Centria_3D_Models/Letters_Library/cake_mould/Letter_A_cake_mould.stl'']"
proof -
  have a: "CHR ''/'' \<notin> set ''A''" by simp
  have v: "''pin'' \<in> fst ` set VARIANTS" by (simp add: VARIANTS_def)
  note w = output_path_pattern [OF a v, where w = world0
      and out_dir = "''Centria_3D_Models/Letters_Library''"
      and fsize = 200 and self = gen0 and ops = exact_ops
      and lib = "test_lib [square] (\<lambda>p. None)"
      and specs = "\<lparr>thickness = 7 / 2, description = ''Pin with mounting post''\<rparr>"]
  from w have d: "path_str (joinpath (FilePath ''Centria_3D_Models/Letters_Library'') ''pin'')
      \<in> dirs (snd (init_default world0))"
    unfolding init_default_def by blast
  have j: "path_str (joinpath (FilePath ''Centria_3D_Models/Letters_Library'') ''pin'') =
      ''Centria_3D_Models/Letters_Library/pin''"
    by code_simp
  from w have p: "path_str (output_file gen0 ''A'' ''pin'') =
      ''Centria_3D_Models/Letters_Library/pin/Letter_A_pin.stl''"
    unfolding gen0_def by blast
  show ?thesis using a v d p by (simp add: j run_all_ok normalised_examples)
qed

section \<open>Centring and scaling in float64\<close>




















































end
